theory Spec2Isabelle
  imports Complex_Main "HOL-Library.Word" "HOL-Library.Log_Nat"
begin

section \<open>The host language: strings, numbers, errors\<close>

text \<open>
  The analysis engine of LingoPulse is the class \<open>AnalysisService\<close> of
  \<open>src/services/AnalysisService.js\<close>. A JavaScript string is a sequence of UTF-16 code
  units; \<open>length\<close>, \<open>includes\<close> and \<open>substring\<close> work on code units, so a string is a
  list of 16-bit words and the Chinese lexicon entries are written as their code units.
\<close>

type_synonym jsstring = "16 word list"

text \<open>An ASCII literal of the source, as code units.\<close>

definition ascii :: "string \<Rightarrow> jsstring" where
  "ascii s = map of_char s"

text \<open>The only exception the modelled code can raise is a \<open>TypeError\<close>: a method call on
  \<open>undefined\<close>, or \<open>reduce\<close> of an empty array without an initial value.\<close>

datatype error = TypeError

text \<open>\<open>String.prototype.includes\<close>: the pattern occurs as a contiguous run of code units.\<close>

fun js_includes :: "'a list \<Rightarrow> 'a list \<Rightarrow> bool" where
  "js_includes [] p = (p = [])"
| "js_includes (c # cs) p = (take (length p) (c # cs) = p \<or> js_includes cs p)"

text \<open>\<open>s.substring(a, b)\<close> for non-negative \<open>a\<close>, \<open>b\<close>: the arguments are swapped when
  \<open>a > b\<close> and clipped to the length.\<close>

definition substring :: "jsstring \<Rightarrow> nat \<Rightarrow> nat \<Rightarrow> jsstring" where
  "substring s a b = take (max a b - min a b) (drop (min a b) s)"

text \<open>The character class \<open>\s\<close> of a regular expression: the WhiteSpace and
  LineTerminator code points of ECMAScript.\<close>

definition isWhiteSpace :: "16 word \<Rightarrow> bool" where
  "isWhiteSpace c \<longleftrightarrow>
     (0x0009 \<le> c \<and> c \<le> 0x000D) \<or> c = 0x0020 \<or> c = 0x00A0 \<or> c = 0x1680 \<or>
     (0x2000 \<le> c \<and> c \<le> 0x200A) \<or> c = 0x2028 \<or> c = 0x2029 \<or> c = 0x202F \<or>
     c = 0x205F \<or> c = 0x3000 \<or> c = 0xFEFF"

text \<open>
  \<open>s.split(/\s+/)\<close>: the string is cut at every maximal run of white space. The pieces
  before a leading run and after a trailing run are empty strings, and the empty string
  splits into the one-element array \<open>[""]\<close>. \<open>splitFrom cur inSep\<close> scans the rest of the
  string with the piece collected so far; \<open>inSep\<close> says that the scan is inside a run of
  white space.
\<close>

fun splitFrom :: "jsstring \<Rightarrow> bool \<Rightarrow> jsstring \<Rightarrow> jsstring list" where
  "splitFrom cur inSep [] = [cur]"
| "splitFrom cur inSep (c # cs) =
     (if isWhiteSpace c
      then (if inSep then splitFrom [] True cs else cur # splitFrom [] True cs)
      else splitFrom (cur @ [c]) False cs)"

definition splitWhitespace :: "jsstring \<Rightarrow> jsstring list" where
  "splitWhitespace s = splitFrom [] False s"

text \<open>
  \<open>String.prototype.toLowerCase\<close> applies the Unicode case mapping, which is a table of
  the host and not code of this repository. The functions that call it take it as the
  parameter \<open>lc\<close>, and every theorem below holds for every function in its place.
  \<open>asciiLower\<close>, the mapping restricted to the letters A to Z, is the instance used to
  evaluate the functions on concrete texts.
\<close>

definition asciiLower :: "jsstring \<Rightarrow> jsstring" where
  "asciiLower s = map (\<lambda>c. if 0x0041 \<le> c \<and> c \<le> 0x005A then c + 0x0020 else c) s"

text \<open>
  \<open>new Set(array)\<close> keeps the distinct elements in the order of their first insertion;
  \<open>size\<close> is the length of that list and \<open>has\<close> is membership.
\<close>

definition js_Set :: "'a list \<Rightarrow> 'a list" where
  "js_Set xs = rev (remdups (rev xs))"

text \<open>
  A finite JavaScript number is a binary64 value, which is a rational number. The result of
  an arithmetic operation is the exact result rounded to the nearest binary64 value, a tie
  going to the even significand: \<open>toDouble\<close> is this rounding, for a significand of 53
  bits. \<open>binaryExponent x\<close> is the exponent \<open>e\<close> with \<open>2^e \<le> x < 2^(e+1)\<close> of a
  positive number, computed from the bit lengths of its numerator and denominator. The
  range of the exponent is not bounded here: the sums and differences of this program stay
  far from overflow and from the subnormal numbers.
\<close>

definition roundHalfEven :: "rat \<Rightarrow> int" where
  "roundHalfEven q =
     (let f = \<lfloor>q\<rfloor>; r = q - of_int f
      in if r < 1/2 then f else if r > 1/2 then f + 1 else if even f then f else f + 1)"

definition binaryExponent :: "rat \<Rightarrow> int" where
  "binaryExponent x =
     (let (n, d) = quotient_of x; k = bitlen n - bitlen d
      in if 2 powi k \<le> x then k else k - 1)"

definition toDouble :: "rat \<Rightarrow> rat" where
  "toDouble x =
     (if x = 0 then 0
      else let ulp = 2 powi (binaryExponent \<bar>x\<bar> - 52)
           in of_int (roundHalfEven (x / ulp)) * ulp)"

text \<open>The operators \<open>+\<close>, \<open>-\<close> and \<open>*\<close> on two finite numbers, and the literal \<open>0.3\<close>,
  which denotes the binary64 value nearest to three tenths.\<close>

definition float_add :: "rat \<Rightarrow> rat \<Rightarrow> rat" where
  "float_add x y = toDouble (x + y)"

definition float_sub :: "rat \<Rightarrow> rat \<Rightarrow> rat" where
  "float_sub x y = toDouble (x - y)"

definition float_mul :: "rat \<Rightarrow> rat \<Rightarrow> rat" where
  "float_mul x y = toDouble (x * y)"

definition double_0_3 :: rat where
  "double_0_3 = 5404319552844595 / 18014398509481984"

text \<open>
  The sentiment score of a text and the change of sentiment between two turns are computed
  with these operations, as the code computes them. The aggregate statistics further below
  (ratios, variance, point strength, consensus level, similarity) are computed exactly, as
  rationals. A division whose denominator the code does not guard can also produce one of
  three special values: \<open>0/0\<close> is \<open>NaN\<close> and \<open>x/0\<close> is an infinity. (HOL's own \<open>x / 0\<close>
  is \<open>0\<close>, so such a division goes through \<open>js_div\<close>.)
\<close>

datatype jsnum = Num rat | PosInfinity | NegInfinity | NaN

definition js_div :: "rat \<Rightarrow> rat \<Rightarrow> jsnum" where
  "js_div x y =
     (if y \<noteq> 0 then Num (x / y)
      else if x = 0 then NaN
      else if 0 < x then PosInfinity else NegInfinity)"

text \<open>The comparison \<open>a > b\<close>; every comparison with \<open>NaN\<close> is false.\<close>

fun js_gt :: "jsnum \<Rightarrow> jsnum \<Rightarrow> bool" where
  "js_gt (Num x) (Num y) = (y < x)"
| "js_gt NaN _ = False"
| "js_gt _ NaN = False"
| "js_gt PosInfinity b = (b \<noteq> PosInfinity)"
| "js_gt NegInfinity _ = False"
| "js_gt (Num x) PosInfinity = False"
| "js_gt (Num x) NegInfinity = True"

section \<open>The lexicon tables of the constructor\<close>

text \<open>
  The tables \<open>this.topicPatterns\<close> and \<open>this.sentimentIndicators\<close> and the word lists
  local to the helper methods, in the order of the source. The keys \<open>positive\<close>,
  \<open>negative\<close> and \<open>neutral\<close> of the sentiment table are the constructors of \<open>polarity\<close>.
\<close>

datatype polarity = Positive | Negative | Neutral

definition topicBusiness :: jsstring where
  "topicBusiness = [0x4E1A, 0x52A1, 0x8BA8, 0x8BBA]"

definition topicTechnology :: jsstring where
  "topicTechnology = [0x6280, 0x672F, 0x4EA4, 0x6D41]"

definition topicTeamwork :: jsstring where
  "topicTeamwork = [0x56E2, 0x961F, 0x534F, 0x4F5C]"

definition topicPlanning :: jsstring where
  "topicPlanning = [0x51B3, 0x7B56, 0x89C4, 0x5212]"

definition topicProblemSolving :: jsstring where
  "topicProblemSolving = [0x95EE, 0x9898, 0x89E3, 0x51B3]"

definition topicBusinessPatterns :: "jsstring list" where
  "topicBusinessPatterns =
    [[0x4E1A, 0x52A1],
     [0x9879, 0x76EE],
     [0x5E02, 0x573A],
     [0x5BA2, 0x6237],
     [0x9500, 0x552E],
     [0x76EE, 0x6807]]"

definition topicTechnologyPatterns :: "jsstring list" where
  "topicTechnologyPatterns =
    [[0x4EE3, 0x7801],
     [0x7CFB, 0x7EDF],
     [0x67B6, 0x6784],
     [0x6280, 0x672F],
     [0x5F00, 0x53D1],
     [0x5B9E, 0x73B0]]"

definition topicTeamworkPatterns :: "jsstring list" where
  "topicTeamworkPatterns =
    [[0x56E2, 0x961F],
     [0x5408, 0x4F5C],
     [0x534F, 0x8C03],
     [0x6C9F, 0x901A],
     [0x914D, 0x5408],
     [0x534F, 0x4F5C]]"

definition topicPlanningPatterns :: "jsstring list" where
  "topicPlanningPatterns =
    [[0x51B3, 0x5B9A],
     [0x9009, 0x62E9],
     [0x89C4, 0x5212],
     [0x7B56, 0x7565],
     [0x65B9, 0x6848],
     [0x5EFA, 0x8BAE]]"

definition topicProblemSolvingPatterns :: "jsstring list" where
  "topicProblemSolvingPatterns =
    [[0x95EE, 0x9898],
     [0x56F0, 0x96BE],
     [0x6311, 0x6218],
     [0x89E3, 0x51B3],
     [0x5904, 0x7406],
     [0x65B9, 0x6848]]"

definition topicPatterns :: "(jsstring \<times> jsstring list) list" where
  "topicPatterns =
    [(topicBusiness, topicBusinessPatterns),
     (topicTechnology, topicTechnologyPatterns),
     (topicTeamwork, topicTeamworkPatterns),
     (topicPlanning, topicPlanningPatterns),
     (topicProblemSolving, topicProblemSolvingPatterns)]"

definition generalDiscussion :: jsstring where
  "generalDiscussion = [0x4E00, 0x822C, 0x8BA8, 0x8BBA]"

definition generalTopic :: jsstring where
  "generalTopic = [0x4E00, 0x822C, 0x8BDD, 0x9898]"

definition positiveIndicators :: "jsstring list" where
  "positiveIndicators =
    [[0x5F88, 0x597D],
     [0x4F18, 0x79C0],
     [0x652F, 0x6301],
     [0x540C, 0x610F],
     [0x6EE1, 0x610F],
     [0x79EF, 0x6781],
     [0x4E50, 0x89C2]]"

definition negativeIndicators :: "jsstring list" where
  "negativeIndicators =
    [[0x95EE, 0x9898],
     [0x56F0, 0x96BE],
     [0x62C5, 0x5FC3],
     [0x4E0D, 0x6EE1, 0x610F],
     [0x6D88, 0x6781],
     [0x53CD, 0x5BF9],
     [0x6279, 0x8BC4]]"

definition neutralIndicators :: "jsstring list" where
  "neutralIndicators =
    [[0x4E86, 0x89E3],
     [0x660E, 0x767D],
     [0x8BA8, 0x8BBA],
     [0x5206, 0x6790],
     [0x8003, 0x8651],
     [0x8BC4, 0x4F30]]"

definition opinionPositiveWords :: "jsstring list" where
  "opinionPositiveWords =
    [[0x652F, 0x6301],
     [0x540C, 0x610F],
     [0x8D5E, 0x6210],
     [0x5F88, 0x597D]]"

definition opinionNegativeWords :: "jsstring list" where
  "opinionNegativeWords =
    [[0x53CD, 0x5BF9],
     [0x4E0D, 0x540C, 0x610F],
     [0x4E0D, 0x884C],
     [0x95EE, 0x9898]]"

definition evidencePatterns :: "jsstring list" where
  "evidencePatterns =
    [[0x6839, 0x636E],
     [0x6570, 0x636E, 0x663E, 0x793A],
     [0x7814, 0x7A76, 0x8868, 0x660E],
     [0x8BC1, 0x636E, 0x8868, 0x660E],
     [0x7EDF, 0x8BA1]]"

definition keyKeywords :: "jsstring list" where
  "keyKeywords =
    [[0x91CD, 0x8981],
     [0x5173, 0x952E],
     [0x6838, 0x5FC3],
     [0x4E3B, 0x8981],
     [0x663E, 0x8457]]"

definition structureMarkers :: "jsstring list" where
  "structureMarkers =
    [[0x9996, 0x5148],
     [0x5176, 0x6B21],
     [0x6700, 0x540E],
     [0x7B2C, 0x4E00],
     [0x7B2C, 0x4E8C],
     [0x7B2C, 0x4E09]]"

definition labelPositive :: jsstring where
  "labelPositive = [0x79EF, 0x6781]"

definition labelNeutral :: jsstring where
  "labelNeutral = [0x4E2D, 0x6027]"

definition labelNegative :: jsstring where
  "labelNegative = [0x6D88, 0x6781]"

definition levelGood :: jsstring where
  "levelGood = [0x826F, 0x597D]"

definition levelFair :: jsstring where
  "levelFair = [0x4E00, 0x822C]"

definition levelAttention :: jsstring where
  "levelAttention = [0x9700, 0x5173, 0x6CE8]"

definition insightPositiveMood :: jsstring where
  "insightPositiveMood = [0x6574, 0x4F53, 0x5BF9, 0x8BDD, 0x6C1B, 0x56F4, 0x79EF, 0x6781, 0x6B63, 0x9762]"

definition insightNegativeMood :: jsstring where
  "insightNegativeMood = [0x5BF9, 0x8BDD, 0x4E2D, 0x5B58, 0x5728, 0x8F83, 0x591A, 0x8D1F, 0x9762, 0x60C5, 0x7EEA, 0xFF0C, 0x9700, 0x8981, 0x5173, 0x6CE8]"

definition insightVolatile :: jsstring where
  "insightVolatile = [0x60C5, 0x611F, 0x6CE2, 0x52A8, 0x8F83, 0x5927, 0xFF0C, 0x9700, 0x8981, 0x7A33, 0x5B9A, 0x60C5, 0x7EEA, 0x7BA1, 0x7406]"

definition insightStable :: jsstring where
  "insightStable = [0x60C5, 0x611F, 0x76F8, 0x5BF9, 0x7A33, 0x5B9A, 0xFF0C, 0x5BF9, 0x8BDD, 0x8D28, 0x91CF, 0x8F83, 0x597D]"

definition eventPositivePrefix :: jsstring where
  "eventPositivePrefix = [0x60C5, 0x611F, 0x8F6C, 0x6298, 0xFF1A, 0x53D8, 0x5F97, 0x66F4, 0x52A0, 0x79EF, 0x6781, 0x0020, 0x0022]"

definition eventNegativePrefix :: jsstring where
  "eventNegativePrefix = [0x60C5, 0x611F, 0x8F6C, 0x6298, 0xFF1A, 0x51FA, 0x73B0, 0x8D1F, 0x9762, 0x60C5, 0x7EEA, 0x0020, 0x0022]"

definition eventSuffix :: jsstring where
  "eventSuffix = [0x002E, 0x002E, 0x002E, 0x0022]"

definition ellipsis :: jsstring where
  "ellipsis = [0x002E, 0x002E, 0x002E]"

definition stanceSupport :: jsstring where
  "stanceSupport = [0x652F, 0x6301]"

definition stanceOppose :: jsstring where
  "stanceOppose = [0x53CD, 0x5BF9]"

definition influenceTopicTech :: jsstring where
  "influenceTopicTech = [0x6280, 0x672F, 0x65B9, 0x6848]"

definition influenceTopicSchedule :: jsstring where
  "influenceTopicSchedule = [0x65F6, 0x95F4, 0x5B89, 0x6392]"

definition influenceTopicResources :: jsstring where
  "influenceTopicResources = [0x8D44, 0x6E90, 0x5206, 0x914D]"


definition sentimentIndicators :: "(polarity \<times> jsstring list) list" where
  "sentimentIndicators =
    [(Positive, positiveIndicators), (Negative, negativeIndicators), (Neutral, neutralIndicators)]"

section \<open>The helper methods\<close>

text \<open>\<open>detectTopics\<close>: the categories of \<open>topicPatterns\<close>, in table order, one of whose
  patterns occurs in the text; the fallback label when there is none.\<close>

definition detectTopics :: "jsstring \<Rightarrow> jsstring list" where
  "detectTopics content =
     (let detectedTopics =
            map fst (filter (\<lambda>(topic, patterns). list_ex (\<lambda>pattern. js_includes content pattern) patterns)
                       topicPatterns)
      in if length detectedTopics > 0 then detectedTopics else [generalDiscussion])"

text \<open>
  \<open>analyzeSentimentScore\<close>: the loop over the entries of the sentiment table adds
  \<open>matches * 0.3\<close> for the positive entry and subtracts \<open>matches * 0.3\<close> for the negative
  entry, in binary64 arithmetic. \<open>analyzeSentimentScoreOn\<close> is the method with the table
  \<open>this.sentimentIndicators\<close> made explicit.
\<close>

definition analyzeSentimentScoreOn ::
    "(polarity \<times> jsstring list) list \<Rightarrow> (jsstring \<Rightarrow> jsstring) \<Rightarrow> jsstring \<Rightarrow> rat" where
  "analyzeSentimentScoreOn indicatorTable lc content =
     (let words = splitWhitespace (lc content);
          score = fold (\<lambda>(sentiment, indicators) score.
                     let matches = length (filter (\<lambda>word. word \<in> set indicators) words);
                         score1 = (if sentiment = Positive
                                   then float_add score (float_mul (of_nat matches) double_0_3)
                                   else score)
                     in (if sentiment = Negative
                         then float_sub score1 (float_mul (of_nat matches) double_0_3)
                         else score1))
                   indicatorTable 0
      in max (-1) (min 1 score))"

definition analyzeSentimentScore :: "(jsstring \<Rightarrow> jsstring) \<Rightarrow> jsstring \<Rightarrow> rat" where
  "analyzeSentimentScore lc content = analyzeSentimentScoreOn sentimentIndicators lc content"

text \<open>\<open>calculateSimilarity\<close>: the sizes of the intersection and of the union of the two
  word sets, divided.\<close>

definition calculateSimilarity :: "(jsstring \<Rightarrow> jsstring) \<Rightarrow> jsstring \<Rightarrow> jsstring \<Rightarrow> jsnum" where
  "calculateSimilarity lc text1 text2 =
     (let words1 = js_Set (splitWhitespace (lc text1));
          words2 = js_Set (splitWhitespace (lc text2));
          intersection = js_Set (filter (\<lambda>word. word \<in> set words2) words1);
          union = js_Set (words1 @ words2)
      in js_div (of_nat (length intersection)) (of_nat (length union)))"

text \<open>\<open>generateTurningPointEvent\<close>: the description of a turning point, around the first 30
  code units of the content.\<close>

definition generateTurningPointEvent :: "jsstring \<Rightarrow> rat \<Rightarrow> jsstring" where
  "generateTurningPointEvent content sentimentChange =
     (if sentimentChange > 1/2
      then eventPositivePrefix @ substring content 0 30 @ eventSuffix
      else eventNegativePrefix @ substring content 0 30 @ eventSuffix)"

text \<open>The helper methods of the key-point analysis that look at one text.\<close>

definition containsKeyKeywords :: "jsstring \<Rightarrow> bool" where
  "containsKeyKeywords content = list_ex (\<lambda>keyword. js_includes content keyword) keyKeywords"

definition hasClearStructure :: "jsstring \<Rightarrow> bool" where
  "hasClearStructure content = list_ex (\<lambda>marker. js_includes content marker) structureMarkers"

definition calculatePointStrength :: "jsstring \<Rightarrow> rat" where
  "calculatePointStrength content =
     (let lengthScore = min 1 (of_nat (length content) / 200);
          keywordScore = (if containsKeyKeywords content then 5/10 else 0);
          structureScore = (if hasClearStructure content then 3/10 else 0)
      in (lengthScore + keywordScore + structureScore) / (18/10))"

definition analyzeOpinionType :: "jsstring \<Rightarrow> int" where
  "analyzeOpinionType content =
     (let posCount = length (filter (\<lambda>word. js_includes content word) opinionPositiveWords);
          negCount = length (filter (\<lambda>word. js_includes content word) opinionNegativeWords)
      in if posCount > negCount then 1 else if negCount > posCount then - 1 else 0)"

definition extractEvidence :: "jsstring \<Rightarrow> jsstring list" where
  "extractEvidence content =
     (let evidence = filter (\<lambda>pattern. js_includes content pattern) evidencePatterns
      in if length evidence > 0 then evidence else [])"

definition extractMainTopic :: "jsstring \<Rightarrow> jsstring" where
  "extractMainTopic content =
     (case detectTopics content of [] \<Rightarrow> generalTopic | first # others \<Rightarrow> first)"

definition hasEvidence :: "jsstring \<Rightarrow> bool" where
  "hasEvidence content \<longleftrightarrow> length (extractEvidence content) > 0"


section \<open>Conversations\<close>

text \<open>
  A turn is an object with the fields \<open>speaker\<close>, \<open>content\<close> and \<open>timestamp\<close>. A field that
  is missing reads as \<open>undefined\<close>, which is \<open>None\<close> here; calling a string method on it
  raises a \<open>TypeError\<close>.
\<close>

record turn =
  speaker :: "jsstring option"
  content :: "jsstring option"
  timestamp :: "jsstring option"

text \<open>\<open>array.forEach((x, index) => ...)\<close> with the mutated local variables as the state
  \<open>s\<close>; an exception in the callback ends the loop.\<close>

fun forEach :: "(nat \<Rightarrow> 'a \<Rightarrow> 's \<Rightarrow> error + 's) \<Rightarrow> nat \<Rightarrow> 'a list \<Rightarrow> 's \<Rightarrow> error + 's" where
  "forEach f index [] s = Inr s"
| "forEach f index (x # xs) s =
     (case f index x s of Inl e \<Rightarrow> Inl e | Inr s' \<Rightarrow> forEach f (Suc index) xs s')"

text \<open>\<open>array.filter\<close> with a callback that can raise.\<close>

fun filterE :: "('a \<Rightarrow> error + bool) \<Rightarrow> 'a list \<Rightarrow> error + 'a list" where
  "filterE p [] = Inr []"
| "filterE p (x # xs) =
     (case p x of Inl e \<Rightarrow> Inl e
      | Inr keep \<Rightarrow> (case filterE p xs of Inl e \<Rightarrow> Inl e
                    | Inr ys \<Rightarrow> Inr (if keep then x # ys else ys)))"

text \<open>\<open>array.reduce(f)\<close> without an initial value raises a \<open>TypeError\<close> on the empty
  array and otherwise folds from the first element.\<close>

fun reduce1 :: "('a \<Rightarrow> 'a \<Rightarrow> 'a) \<Rightarrow> 'a list \<Rightarrow> error + 'a" where
  "reduce1 f [] = Inl TypeError"
| "reduce1 f (x # xs) = Inr (foldl f x xs)"

text \<open>\<open>array[i]\<close>: \<open>None\<close> is the \<open>undefined\<close> read out of range.\<close>

definition elementAt :: "'a list \<Rightarrow> nat \<Rightarrow> 'a option" where
  "elementAt xs i = (if i < length xs then Some (xs ! i) else None)"

text \<open>\<open>array.slice(a, b)\<close> for non-negative \<open>a\<close> and \<open>b\<close>.\<close>

definition slice :: "'a list \<Rightarrow> nat \<Rightarrow> nat \<Rightarrow> 'a list" where
  "slice xs a b = take (b - a) (drop a xs)"

text \<open>\<open>array.join(' ')\<close> of strings; an \<open>undefined\<close> element is written as the empty
  string.\<close>

fun joinSpace :: "jsstring option list \<Rightarrow> jsstring" where
  "joinSpace [] = []"
| "joinSpace [x] = (case x of None \<Rightarrow> [] | Some s \<Rightarrow> s)"
| "joinSpace (x # y # ys) = (case x of None \<Rightarrow> [] | Some s \<Rightarrow> s) @ [0x0020] @ joinSpace (y # ys)"

text \<open>A value used as the key of an object property is converted to a string.\<close>

definition propertyKey :: "jsstring option \<Rightarrow> jsstring" where
  "propertyKey v = (case v of None \<Rightarrow> ascii ''undefined'' | Some s \<Rightarrow> s)"

text \<open>
  An object literal \<open>{}\<close> inherits the properties of \<open>Object.prototype\<close>. Reading one of
  these names from an object that has not stored it gives the inherited value, a function
  (for \<open>__proto__\<close> the prototype object itself), never \<open>undefined\<close>.
\<close>

definition objectPrototypeKeys :: "jsstring list" where
  "objectPrototypeKeys =
     map ascii
       [''constructor'', ''__defineGetter__'', ''__defineSetter__'', ''hasOwnProperty'',
        ''__lookupGetter__'', ''__lookupSetter__'', ''isPrototypeOf'', ''propertyIsEnumerable'',
        ''toString'', ''valueOf'', ''__proto__'', ''toLocaleString'']"

subsection \<open>Arithmetic on numbers that may be special values\<close>

fun js_neg :: "jsnum \<Rightarrow> jsnum" where
  "js_neg (Num x) = Num (- x)"
| "js_neg PosInfinity = NegInfinity"
| "js_neg NegInfinity = PosInfinity"
| "js_neg NaN = NaN"

fun js_add :: "jsnum \<Rightarrow> jsnum \<Rightarrow> jsnum" where
  "js_add (Num x) (Num y) = Num (x + y)"
| "js_add NaN b = NaN"
| "js_add a NaN = NaN"
| "js_add PosInfinity NegInfinity = NaN"
| "js_add NegInfinity PosInfinity = NaN"
| "js_add PosInfinity b = PosInfinity"
| "js_add NegInfinity b = NegInfinity"
| "js_add (Num x) b = b"

definition js_sub :: "jsnum \<Rightarrow> jsnum \<Rightarrow> jsnum" where
  "js_sub a b = js_add a (js_neg b)"

text \<open>The sign of a non-\<open>NaN\<close> number, for the product with an infinity.\<close>

fun js_sign :: "jsnum \<Rightarrow> int" where
  "js_sign (Num x) = (if x = 0 then 0 else if 0 < x then 1 else - 1)"
| "js_sign PosInfinity = 1"
| "js_sign NegInfinity = - 1"
| "js_sign NaN = 0"

fun js_mul :: "jsnum \<Rightarrow> jsnum \<Rightarrow> jsnum" where
  "js_mul (Num x) (Num y) = Num (x * y)"
| "js_mul NaN b = NaN"
| "js_mul a NaN = NaN"
| "js_mul a b =
     (if js_sign a * js_sign b = 0 then NaN
      else if 0 < js_sign a * js_sign b then PosInfinity else NegInfinity)"

text \<open>\<open>Math.min\<close>, \<open>Math.max\<close> (\<open>NaN\<close> when an argument is \<open>NaN\<close>) and \<open>Math.round\<close>
  (to the nearest integer, a half upwards).\<close>

definition js_min :: "jsnum \<Rightarrow> jsnum \<Rightarrow> jsnum" where
  "js_min a b = (if a = NaN \<or> b = NaN then NaN else if js_gt a b then b else a)"

definition js_max :: "jsnum \<Rightarrow> jsnum \<Rightarrow> jsnum" where
  "js_max a b = (if a = NaN \<or> b = NaN then NaN else if js_gt a b then a else b)"

definition round_half_up :: "rat \<Rightarrow> int" where
  "round_half_up x = \<lfloor>x + 1/2\<rfloor>"

fun js_round :: "jsnum \<Rightarrow> jsnum" where
  "js_round (Num x) = Num (of_int (round_half_up x))"
| "js_round a = a"

section \<open>Sentiment analysis\<close>

definition calculateEmotionalVariance :: "rat list \<Rightarrow> rat" where
  "calculateEmotionalVariance sentiments =
     (if length sentiments = 0 then 0
      else let mean = fold (\<lambda>s sum. sum + s) sentiments 0 / of_nat (length sentiments);
               variance = fold (\<lambda>s sum. sum + (s - mean) ^ 2) sentiments 0 / of_nat (length sentiments)
           in min 1 variance)"

text \<open>The counters of the object \<open>sentimentDistribution\<close>.\<close>

record sentiment_distribution =
  positive :: nat
  neutral :: nat
  negative :: nat

definition generateSentimentInsights :: "sentiment_distribution \<Rightarrow> rat \<Rightarrow> jsstring list" where
  "generateSentimentInsights distribution variance =
     (let insights1 =
            (if positive distribution > negative distribution + neutral distribution
             then [insightPositiveMood]
             else if negative distribution > positive distribution + neutral distribution
             then [insightNegativeMood]
             else [])
      in if variance > 1/2 then insights1 @ [insightVolatile] else insights1 @ [insightStable])"

record trend_entry =
  timeIndex :: nat
  sentiment :: rat
  trendSpeaker :: "jsstring option"
  trendTimestamp :: "jsstring option"

record participant_entry =
  entryTimeIndex :: nat
  entrySentiment :: rat
  entryContent :: jsstring

record turning_point =
  pointTimeIndex :: nat
  pointTimestamp :: "jsstring option"
  event :: jsstring
  impact :: rat
  recovery :: jsstring

text \<open>
  The local variables of \<open>analyzeSentiment\<close> that its loop mutates.
  \<open>participantsSentiment\<close> is an object literal used as a dictionary from the speaker's name:
  the map holds the keys that the loop has stored. The loop never stores a name of
  \<open>objectPrototypeKeys\<close>: for such a speaker \<open>participantsSentiment[speaker]\<close> is the
  inherited value, the test \<open>!participantsSentiment[speaker]\<close> is false, and the call of
  \<open>push\<close> on a value that has no such method raises a \<open>TypeError\<close>.
\<close>

record sentiment_vars =
  varSentimentTrend :: "trend_entry list"
  varSentimentDistribution :: sentiment_distribution
  varTurningPoints :: "turning_point list"
  varParticipantsSentiment :: "jsstring \<rightharpoonup> participant_entry list"

definition sentimentStep ::
    "(jsstring \<Rightarrow> jsstring) \<Rightarrow> nat \<Rightarrow> turn \<Rightarrow> sentiment_vars \<Rightarrow> error + sentiment_vars" where
  "sentimentStep lc index message vars =
     (case content message of
        None \<Rightarrow> Inl TypeError
      | Some c \<Rightarrow>
          let sentiment = analyzeSentimentScore lc c;
              counts = varSentimentDistribution vars;
              counts' = (if sentiment > double_0_3 then counts\<lparr>positive := positive counts + 1\<rparr>
                       else if sentiment < - double_0_3 then counts\<lparr>negative := negative counts + 1\<rparr>
                       else counts\<lparr>neutral := neutral counts + 1\<rparr>);
              key = propertyKey (speaker message)
          in if key \<in> set objectPrototypeKeys
             then Inl TypeError
             else
               let history = (case varParticipantsSentiment vars key of None \<Rightarrow> [] | Some h \<Rightarrow> h);
                   participants' = (varParticipantsSentiment vars)
                     (key \<mapsto> history @ [\<lparr>entryTimeIndex = index, entrySentiment = sentiment,
                                           entryContent = substring c 0 50\<rparr>]);
                   trend' = varSentimentTrend vars @
                     [\<lparr>timeIndex = index, sentiment = sentiment,
                       trendSpeaker = speaker message, trendTimestamp = timestamp message\<rparr>];
                   vars' = vars\<lparr>varSentimentTrend := trend', varSentimentDistribution := counts',
                                varParticipantsSentiment := participants'\<rparr>
               in if index > 0
                  then (case elementAt trend' (index - 1) of
                          None \<Rightarrow> Inl TypeError
                        | Some previous \<Rightarrow>
                            let prevSentiment = trend_entry.sentiment previous;
                                sentimentChange = float_sub sentiment prevSentiment
                            in if \<bar>sentimentChange\<bar> > 1/2
                               then Inr (vars'\<lparr>varTurningPoints := varTurningPoints vars' @
                                      [\<lparr>pointTimeIndex = index, pointTimestamp = timestamp message,
                                        event = generateTurningPointEvent c sentimentChange,
                                        impact = \<bar>sentimentChange\<bar>,
                                        recovery = (if sentiment > 0 then labelPositive
                                                    else labelNegative)\<rparr>]\<rparr>)
                               else Inr vars')
                  else Inr vars')"

text \<open>The values of the local variables before the loop.\<close>

definition sentimentVars0 :: sentiment_vars where
  "sentimentVars0 =
     \<lparr>varSentimentTrend = [],
      varSentimentDistribution = \<lparr>positive = 0, neutral = 0, negative = 0\<rparr>,
      varTurningPoints = [], varParticipantsSentiment = Map.empty\<rparr>"

record distribution_entry =
  entryName :: jsstring
  entryValue :: nat
  entryColor :: jsstring

record sentiment_result =
  sentimentTrend :: "trend_entry list"
  sentimentDistribution :: "distribution_entry list"
  turningPoints :: "turning_point list"
  participantsSentiment :: "jsstring \<rightharpoonup> participant_entry list"
  healthScore :: jsnum
  healthLevel :: jsstring
  insights :: "jsstring list"

definition analyzeSentiment :: "(jsstring \<Rightarrow> jsstring) \<Rightarrow> turn list \<Rightarrow> error + sentiment_result" where
  "analyzeSentiment lc dialogue =
     (case forEach (sentimentStep lc) 0 dialogue sentimentVars0 of
        Inl e \<Rightarrow> Inl e
      | Inr vars \<Rightarrow>
          let counts = varSentimentDistribution vars;
              totalMessages = length dialogue;
              positivityRatio = js_div (of_nat (positive counts)) (of_nat totalMessages);
              negativityRatio = js_div (of_nat (negative counts)) (of_nat totalMessages);
              emotionalVariance =
                calculateEmotionalVariance (map trend_entry.sentiment (varSentimentTrend vars));
              score = js_max (Num 0) (js_min (Num 100)
                (js_mul (js_add (js_add (js_mul positivityRatio (Num 40))
                                        (js_mul (js_sub (Num 1) negativityRatio) (Num 30)))
                                (Num ((1 - emotionalVariance) * 30)))
                        (Num 100)))
          in Inr \<lparr>sentimentTrend = take 50 (varSentimentTrend vars),
                  sentimentDistribution =
                    [\<lparr>entryName = labelPositive, entryValue = positive counts, entryColor = ascii ''#4caf50''\<rparr>,
                     \<lparr>entryName = labelNeutral, entryValue = neutral counts, entryColor = ascii ''#ff9800''\<rparr>,
                     \<lparr>entryName = labelNegative, entryValue = negative counts, entryColor = ascii ''#f44336''\<rparr>],
                  turningPoints = take 8 (varTurningPoints vars),
                  participantsSentiment = varParticipantsSentiment vars,
                  healthScore = js_round score,
                  healthLevel = (if js_gt score (Num 70) then levelGood
                                 else if js_gt score (Num 50) then levelFair else levelAttention),
                  insights = generateSentimentInsights counts emotionalVariance\<rparr>)"


section \<open>Key-point analysis\<close>

text \<open>\<open>calculateConsensusLevel\<close>: the messages of the whole dialogue whose content is
  similar to the given content are counted, the given message among them.\<close>

definition calculateConsensusLevel ::
    "(jsstring \<Rightarrow> jsstring) \<Rightarrow> turn list \<Rightarrow> jsstring \<Rightarrow> error + rat" where
  "calculateConsensusLevel lc dialogue c =
     (case filterE (\<lambda>msg. case content msg of
                            None \<Rightarrow> Inl TypeError
                          | Some other \<Rightarrow> Inr (js_gt (calculateSimilarity lc other c) (Num (6/10))))
             dialogue of
        Inl e \<Rightarrow> Inl e
      | Inr similarMessages \<Rightarrow> Inr (min 1 (of_nat (length similarMessages) / 3)))"

record key_point =
  pointId :: nat
  pointContent :: jsstring
  pointSpeaker :: "jsstring option"
  keyPointTimestamp :: "jsstring option"
  importance :: int
  consensusLevel :: int
  intensity :: int
  evidence :: "jsstring list"

record controversial_topic =
  topic :: jsstring
  stance :: jsstring
  topicSpeaker :: "jsstring option"
  topicEvidence :: "jsstring list"

record consensus_point =
  agreement :: jsstring
  agreementLevel :: int
  agreementEvidence :: "jsstring list"

record evidence_reference =
  quote :: jsstring
  quoteSpeaker :: "jsstring option"
  quoteTimestamp :: "jsstring option"
  relevance :: rat

record influence_entry =
  influenceTopic :: jsstring
  influence :: nat

definition analyzeInfluence :: "key_point list \<Rightarrow> influence_entry list" where
  "analyzeInfluence keyPoints =
     [\<lparr>influenceTopic = influenceTopicTech, influence = 88\<rparr>,
      \<lparr>influenceTopic = influenceTopicSchedule, influence = 75\<rparr>,
      \<lparr>influenceTopic = influenceTopicResources, influence = 82\<rparr>]"

text \<open>\<open>findDominantPosition\<close>: the counters \<open>positions\<close> are filled from the opinion of
  each key point's (shortened) content; \<open>reduce\<close> runs over the keys \<open>positive\<close>,
  \<open>neutral\<close>, \<open>negative\<close> in this order.\<close>

definition findDominantPosition :: "key_point list \<Rightarrow> polarity" where
  "findDominantPosition keyPoints =
     (let positions = fold (\<lambda>point positions.
                         let opinion = analyzeOpinionType (pointContent point)
                         in if opinion > 0 then positions\<lparr>positive := positive positions + 1\<rparr>
                            else if opinion < 0 then positions\<lparr>negative := negative positions + 1\<rparr>
                            else positions\<lparr>neutral := neutral positions + 1\<rparr>)
                       keyPoints \<lparr>positive = 0, neutral = 0, negative = 0\<rparr>;
          count = (\<lambda>k. case k of Positive \<Rightarrow> positive positions
                                | Neutral \<Rightarrow> neutral positions
                                | Negative \<Rightarrow> negative positions)
      in foldl (\<lambda>a b. if count a > count b then a else b) Positive [Neutral, Negative])"

text \<open>The four arrays that the loop of \<open>analyzeKeyPoints\<close> fills.\<close>

record keypoints_vars =
  varKeyPoints :: "key_point list"
  varControversialTopics :: "controversial_topic list"
  varConsensusPoints :: "consensus_point list"
  varEvidenceReferences :: "evidence_reference list"

definition keyPointsStep ::
    "(jsstring \<Rightarrow> jsstring) \<Rightarrow> turn list \<Rightarrow> nat \<Rightarrow> turn \<Rightarrow> keypoints_vars \<Rightarrow> error + keypoints_vars" where
  "keyPointsStep lc dialogue index message vars =
     (case content message of
        None \<Rightarrow> Inl TypeError
      | Some c \<Rightarrow>
          let pointStrength = calculatePointStrength c
          in if pointStrength > 7/10 \<or> length c > 100
             then (let opinionScore = analyzeOpinionType c
                   in case calculateConsensusLevel lc dialogue c of
                        Inl e \<Rightarrow> Inl e
                      | Inr level \<Rightarrow>
                          let strength = \<bar>analyzeSentimentScore lc c\<bar>;
                              vars1 = vars\<lparr>varKeyPoints := varKeyPoints vars @
                                [\<lparr>pointId = index,
                                  pointContent = substring c 0 200 @ (if length c > 200 then ellipsis else []),
                                  pointSpeaker = speaker message,
                                  keyPointTimestamp = timestamp message,
                                  importance = round_half_up (pointStrength * 100),
                                  consensusLevel = round_half_up (level * 100),
                                  intensity = round_half_up (strength * 100),
                                  evidence = extractEvidence c\<rparr>]\<rparr>;
                              vars2 = (if level < 3/10
                                       then vars1\<lparr>varControversialTopics := varControversialTopics vars1 @
                                         [\<lparr>topic = extractMainTopic c,
                                           stance = (if opinionScore > 0 then stanceSupport else stanceOppose),
                                           topicSpeaker = speaker message,
                                           topicEvidence = [c]\<rparr>]\<rparr>
                                       else vars1);
                              vars3 = (if level > 7/10
                                       then vars2\<lparr>varConsensusPoints := varConsensusPoints vars2 @
                                         [\<lparr>agreement = substring c 0 100 @ ellipsis,
                                           agreementLevel = round_half_up (level * 100),
                                           agreementEvidence = [c]\<rparr>]\<rparr>
                                       else vars2);
                              vars4 = (if hasEvidence c
                                       then vars3\<lparr>varEvidenceReferences := varEvidenceReferences vars3 @
                                         [\<lparr>quote = c, quoteSpeaker = speaker message,
                                           quoteTimestamp = timestamp message,
                                           relevance = pointStrength\<rparr>]\<rparr>
                                       else vars3)
                          in Inr vars4)
             else Inr vars)"

definition keyPointsVars0 :: keypoints_vars where
  "keyPointsVars0 =
     \<lparr>varKeyPoints = [], varControversialTopics = [],
      varConsensusPoints = [], varEvidenceReferences = []\<rparr>"

text \<open>
  The result of \<open>analyzeKeyPoints\<close>. The two \<open>sort\<close> calls order by descending importance
  and relevance and are stable. \<open>avgConsensusLevel\<close> is the number that the source renders
  with one decimal (\<open>toFixed(1)\<close>), or the number \<open>0\<close> when there are no key points.
\<close>

record keypoints_result =
  keyPoints :: "key_point list"
  controversialTopics :: "controversial_topic list"
  consensusPoints :: "consensus_point list"
  evidenceReferences :: "evidence_reference list"
  influenceAnalysis :: "influence_entry list"
  totalKeyPoints :: nat
  avgConsensusLevel :: rat
  dominantPosition :: polarity

definition analyzeKeyPoints :: "(jsstring \<Rightarrow> jsstring) \<Rightarrow> turn list \<Rightarrow> error + keypoints_result" where
  "analyzeKeyPoints lc dialogue =
     (case forEach (keyPointsStep lc dialogue) 0 dialogue keyPointsVars0 of
        Inl e \<Rightarrow> Inl e
      | Inr vars \<Rightarrow>
          let influenceAnalysis = analyzeInfluence (varKeyPoints vars);
              sorted = sort_key (\<lambda>point. - importance point) (varKeyPoints vars)
          in Inr \<lparr>keyPoints = take 15 sorted,
                  controversialTopics = take 8 (varControversialTopics vars),
                  consensusPoints = take 6 (varConsensusPoints vars),
                  evidenceReferences =
                    take 10 (sort_key (\<lambda>reference. - relevance reference) (varEvidenceReferences vars)),
                  influenceAnalysis = influenceAnalysis,
                  totalKeyPoints = length sorted,
                  avgConsensusLevel =
                    (if length sorted > 0
                     then of_int (fold (\<lambda>point sum. sum + consensusLevel point) sorted 0)
                          / of_nat (length sorted)
                     else 0),
                  dominantPosition = findDominantPosition sorted\<rparr>)"

section \<open>Topic analysis\<close>

text \<open>\<open>analyzeThemeTransitions\<close>: \<open>lastTopic\<close> starts as \<open>null\<close> and then holds the first
  topic of the previous message (\<open>undefined\<close> if that message had no topic).\<close>

datatype last_topic = Null | Undefined | Topic jsstring

record transition =
  fromTopic :: last_topic
  toTopic :: jsstring
  frequency :: nat
  transitionTimestamp :: "jsstring option"

definition themeTransitionStep ::
    "nat \<Rightarrow> turn \<Rightarrow> transition list \<times> last_topic \<Rightarrow> error + transition list \<times> last_topic" where
  "themeTransitionStep index message vars =
     (case content message of
        None \<Rightarrow> Inl TypeError
      | Some c \<Rightarrow>
          (case detectTopics c of
             [] \<Rightarrow> Inr (fst vars, Undefined)
           | first # others \<Rightarrow>
               Inr (if Topic first \<noteq> snd vars \<and> snd vars \<noteq> Null
                    then fst vars @ [\<lparr>fromTopic = snd vars, toTopic = first, frequency = 1,
                                      transitionTimestamp = timestamp message\<rparr>]
                    else fst vars,
                    Topic first)))"

definition analyzeThemeTransitions :: "turn list \<Rightarrow> error + transition list" where
  "analyzeThemeTransitions dialogue =
     (case forEach themeTransitionStep 0 dialogue ([], Null) of
        Inl e \<Rightarrow> Inl e
      | Inr (transitions, lastTopic) \<Rightarrow> Inr (take 10 transitions))"

record key_segment =
  segmentId :: nat
  segmentSpeaker :: "jsstring option"
  segmentTimestamp :: "jsstring option"
  segmentTopic :: jsstring
  snippet :: jsstring
  fullContent :: jsstring

record evolution_entry =
  timePoint :: nat
  evolutionTopic :: jsstring
  evolutionIntensity :: rat

text \<open>
  The object \<open>themeDistribution\<close> is a dictionary from topic labels to counters whose keys
  are enumerated in insertion order (no label is an array index), so it is an association
  list; \<open>countTopic\<close> is the statement
  \<open>themeDistribution[topic] = (themeDistribution[topic] || 0) + 1\<close>.
\<close>

fun countTopic :: "jsstring \<Rightarrow> (jsstring \<times> nat) list \<Rightarrow> (jsstring \<times> nat) list" where
  "countTopic t [] = [(t, 1)]"
| "countTopic t ((k, n) # rest) = (if k = t then (k, n + 1) # rest else (k, n) # countTopic t rest)"

record topics_vars =
  varThemeDistribution :: "(jsstring \<times> nat) list"
  varThemeEvolution :: "evolution_entry list"
  varKeySegments :: "key_segment list"

text \<open>
  The loop body of \<open>analyzeTopics\<close>, with its two inner loops: \<open>countDetectedTopic\<close>
  is the callback that runs for each topic detected in the message, \<open>recordEvolution\<close> the
  one that runs for each topic of the recent window. \<open>Math.random()\<close> is the parameter
  \<open>rnd\<close>: \<open>rnd k\<close> is the value of the call number \<open>k\<close>, and there has been one call for
  every entry of \<open>themeEvolution\<close> so far.
\<close>

definition countDetectedTopic :: "nat \<Rightarrow> turn \<Rightarrow> jsstring \<Rightarrow> jsstring \<Rightarrow> topics_vars \<Rightarrow> topics_vars" where
  "countDetectedTopic index message c t vars =
     (let vars' = vars\<lparr>varThemeDistribution := countTopic t (varThemeDistribution vars)\<rparr>
      in if length c > 50
         then vars'\<lparr>varKeySegments := varKeySegments vars' @
                [\<lparr>segmentId = index, segmentSpeaker = speaker message,
                  segmentTimestamp = timestamp message, segmentTopic = t,
                  snippet = substring c 0 100 @ ellipsis, fullContent = c\<rparr>]\<rparr>
         else vars')"

definition recordEvolution :: "(nat \<Rightarrow> rat) \<Rightarrow> nat \<Rightarrow> jsstring \<Rightarrow> topics_vars \<Rightarrow> topics_vars" where
  "recordEvolution rnd index t vars =
     vars\<lparr>varThemeEvolution := varThemeEvolution vars @
       [\<lparr>timePoint = index, evolutionTopic = t,
         evolutionIntensity = rnd (length (varThemeEvolution vars)) * 100\<rparr>]\<rparr>"

definition topicsStep ::
    "(nat \<Rightarrow> rat) \<Rightarrow> turn list \<Rightarrow> nat \<Rightarrow> turn \<Rightarrow> topics_vars \<Rightarrow> error + topics_vars" where
  "topicsStep rnd dialogue index message vars =
     (case content message of
        None \<Rightarrow> Inl TypeError
      | Some c \<Rightarrow>
          let detectedTopics = detectTopics c;
              vars1 = fold (countDetectedTopic index message c) detectedTopics vars
          in if index mod 10 = 0
             then (let recentTopics = detectTopics
                         (joinSpace (map content
                            (slice dialogue (nat (max 0 (int index - 10))) (index + 1))))
                   in Inr (fold (recordEvolution rnd index) recentTopics vars1))
             else Inr vars1)"

definition topicsVars0 :: topics_vars where
  "topicsVars0 = \<lparr>varThemeDistribution = [], varThemeEvolution = [], varKeySegments = []\<rparr>"

text \<open>
  The result of \<open>analyzeTopics\<close>. \<open>percentage\<close> and \<open>avgSegmentLength\<close> are the numbers
  that the source renders with \<open>toFixed\<close>. The comparison of two counters in the
  \<open>reduce\<close> of \<open>dominantTheme\<close> is false when a counter is \<open>undefined\<close>.
\<close>

record pie_entry =
  pieName :: jsstring
  pieValue :: nat
  percentage :: jsnum

record topics_result =
  themeDistribution :: "pie_entry list"
  themeEvolution :: "evolution_entry list"
  themeTransitions :: "transition list"
  keySegments :: "key_segment list"
  dominantTheme :: jsstring
  themeVariety :: nat
  avgSegmentLength :: rat

definition analyzeTopics :: "(nat \<Rightarrow> rat) \<Rightarrow> turn list \<Rightarrow> error + topics_result" where
  "analyzeTopics rnd dialogue =
     (case forEach (topicsStep rnd dialogue) 0 dialogue topicsVars0 of
        Inl e \<Rightarrow> Inl e
      | Inr vars \<Rightarrow>
          let distribution = varThemeDistribution vars;
              segments = varKeySegments vars;
              totalCount = fold (\<lambda>count sum. sum + count) (map snd distribution) 0;
              pieData = map (\<lambda>(name, count).
                          \<lparr>pieName = name, pieValue = count,
                           percentage = js_mul (js_div (of_nat count) (of_nat totalCount)) (Num 100)\<rparr>)
                        distribution
          in case analyzeThemeTransitions dialogue of
               Inl e \<Rightarrow> Inl e
             | Inr transitions \<Rightarrow>
                 (case reduce1 (\<lambda>a b. case (map_of distribution a, map_of distribution b) of
                                        (Some x, Some y) \<Rightarrow> if x > y then a else b
                                      | _ \<Rightarrow> b)
                         (map fst distribution) of
                    Inl e \<Rightarrow> Inl e
                  | Inr dominant \<Rightarrow>
                      Inr \<lparr>themeDistribution = pieData,
                           themeEvolution = take 20 (varThemeEvolution vars),
                           themeTransitions = transitions,
                           keySegments = take 10 segments,
                           dominantTheme = dominant,
                           themeVariety = length (map fst distribution),
                           avgSegmentLength =
                             (if length segments > 0
                              then of_nat (fold (\<lambda>seg sum. sum + length (fullContent seg)) segments 0)
                                   / of_nat (length segments)
                              else 0)\<rparr>))"


section \<open>Vocabulary of the specification\<close>

text \<open>
  The definitions of this section are not code of the repository. They state what the
  specification says in its own terms, so that the methods above can be compared with it,
  and they name the conversations on which the theorems are evaluated.
\<close>

text \<open>A pattern is a substring of a text.\<close>

definition occursIn :: "'a list \<Rightarrow> 'a list \<Rightarrow> bool" where
  "occursIn pattern s \<longleftrightarrow> (\<exists>before after. s = before @ pattern @ after)"

text \<open>The topic categories one of whose trigger phrases is a substring of the text.\<close>

definition matchedTopics :: "jsstring \<Rightarrow> jsstring list" where
  "matchedTopics s =
     map fst (filter (\<lambda>(topic, patterns). \<exists>pattern \<in> set patterns. occursIn pattern s) topicPatterns)"

text \<open>The set of lowercase whitespace-delimited tokens of a text.\<close>

definition tokenSet :: "(jsstring \<Rightarrow> jsstring) \<Rightarrow> jsstring \<Rightarrow> jsstring set" where
  "tokenSet lc s = set (splitWhitespace (lc s))"

text \<open>The number of tokens of a text that are equal to an entry of a lexicon bucket.\<close>

definition lexiconMatches :: "jsstring list \<Rightarrow> (jsstring \<Rightarrow> jsstring) \<Rightarrow> jsstring \<Rightarrow> nat" where
  "lexiconMatches bucket lc s =
     length (filter (\<lambda>token. \<exists>entry \<in> set bucket. token = entry) (splitWhitespace (lc s)))"

text \<open>The binary64 values: an integer significand below \<open>2^53\<close> times a power of two.\<close>

definition representable :: "rat \<Rightarrow> bool" where
  "representable x \<longleftrightarrow> (\<exists>m k. \<bar>m\<bar> < 2 ^ 53 \<and> x = of_int m * 2 powi k)"

text \<open>A conversation as the data model describes it: every turn has a content.\<close>

definition hasContent :: "turn list \<Rightarrow> bool" where
  "hasContent dialogue \<longleftrightarrow> (\<forall>t \<in> set dialogue. content t \<noteq> None)"

definition contentOf :: "turn \<Rightarrow> jsstring" where
  "contentOf t = (case content t of None \<Rightarrow> [] | Some c \<Rightarrow> c)"

text \<open>No speaker's name, as a property key, is a name that an object inherits from
  \<open>Object.prototype\<close>.\<close>

definition ordinarySpeakers :: "turn list \<Rightarrow> bool" where
  "ordinarySpeakers dialogue \<longleftrightarrow>
     (\<forall>t \<in> set dialogue. propertyKey (speaker t) \<notin> set objectPrototypeKeys)"

text \<open>The turns of a conversation whose similarity to a text exceeds \<open>0.6\<close>.\<close>

definition similarTurns :: "(jsstring \<Rightarrow> jsstring) \<Rightarrow> turn list \<Rightarrow> jsstring \<Rightarrow> turn list" where
  "similarTurns lc dialogue c =
     filter (\<lambda>t. js_gt (calculateSimilarity lc (contentOf t) c) (Num (6/10))) dialogue"

text \<open>
  The sentiment score of turn \<open>i\<close>, its entry in the sentiment trend, the change of the
  score from turn \<open>i - 1\<close> to turn \<open>i\<close> (a binary64 subtraction), the condition for a
  turning point at turn \<open>i\<close>, the description of a turning point (one of two templates
  around the first 30 code units of the content) and the record of the turning point at
  turn \<open>i\<close>; then all turning points in turn order and the whole trend.
\<close>

definition scoreAt :: "(jsstring \<Rightarrow> jsstring) \<Rightarrow> turn list \<Rightarrow> nat \<Rightarrow> rat" where
  "scoreAt lc dialogue i = analyzeSentimentScore lc (contentOf (dialogue ! i))"

definition trendEntryAt :: "(jsstring \<Rightarrow> jsstring) \<Rightarrow> turn list \<Rightarrow> nat \<Rightarrow> trend_entry" where
  "trendEntryAt lc dialogue i =
     \<lparr>timeIndex = i, sentiment = scoreAt lc dialogue i,
      trendSpeaker = speaker (dialogue ! i), trendTimestamp = timestamp (dialogue ! i)\<rparr>"

definition scoreChange :: "(jsstring \<Rightarrow> jsstring) \<Rightarrow> turn list \<Rightarrow> nat \<Rightarrow> rat" where
  "scoreChange lc dialogue i = float_sub (scoreAt lc dialogue i) (scoreAt lc dialogue (i - 1))"

definition isTurningPoint :: "(jsstring \<Rightarrow> jsstring) \<Rightarrow> turn list \<Rightarrow> nat \<Rightarrow> bool" where
  "isTurningPoint lc dialogue i \<longleftrightarrow> 0 < i \<and> \<bar>scoreChange lc dialogue i\<bar> > 1/2"

definition turningPointDescription :: "jsstring \<Rightarrow> rat \<Rightarrow> jsstring" where
  "turningPointDescription c change =
     (if change > 1/2 then eventPositivePrefix else eventNegativePrefix) @ take 30 c @ eventSuffix"

definition turningPointAt :: "(jsstring \<Rightarrow> jsstring) \<Rightarrow> turn list \<Rightarrow> nat \<Rightarrow> turning_point" where
  "turningPointAt lc dialogue i =
     \<lparr>pointTimeIndex = i, pointTimestamp = timestamp (dialogue ! i),
      event = turningPointDescription (contentOf (dialogue ! i)) (scoreChange lc dialogue i),
      impact = \<bar>scoreChange lc dialogue i\<bar>,
      recovery = (if scoreAt lc dialogue i > 0 then labelPositive else labelNegative)\<rparr>"

definition detectedTurningPoints :: "(jsstring \<Rightarrow> jsstring) \<Rightarrow> turn list \<Rightarrow> turning_point list" where
  "detectedTurningPoints lc dialogue =
     map (turningPointAt lc dialogue) (filter (isTurningPoint lc dialogue) [0..<length dialogue])"

definition fullTrend :: "(jsstring \<Rightarrow> jsstring) \<Rightarrow> turn list \<Rightarrow> trend_entry list" where
  "fullTrend lc dialogue = map (trendEntryAt lc dialogue) [0..<length dialogue]"

text \<open>
  The health score as the specification gives it, for a non-empty conversation: the
  clamped value of \<open>100 * (0.4 * positivityRatio + 0.3 * (1 - negativityRatio) +
  0.3 * (1 - emotionalVariance))\<close>, with the fractions of the turns classified positive
  and negative and the population variance of the scores, capped at \<open>1\<close>.
\<close>

definition claimedHealthScore :: "(jsstring \<Rightarrow> jsstring) \<Rightarrow> turn list \<Rightarrow> rat" where
  "claimedHealthScore lc dialogue =
     (let scores = map (\<lambda>t. analyzeSentimentScore lc (contentOf t)) dialogue;
          total = of_nat (length dialogue);
          positivityRatio = of_nat (length (filter (\<lambda>s. s > 3/10) scores)) / total;
          negativityRatio = of_nat (length (filter (\<lambda>s. s < - (3/10)) scores)) / total;
          mean = sum_list scores / total;
          emotionalVariance = min 1 (sum_list (map (\<lambda>s. (s - mean) ^ 2) scores) / total)
      in max 0 (min 100 (100 * (4/10 * positivityRatio + 3/10 * (1 - negativityRatio)
                                + 3/10 * (1 - emotionalVariance)))))"

text \<open>
  Turns for the evaluations: a neutral remark, a turn without speaker whose content is
  two entries of the positive lexicon separated by a space, a turn of 101 letters
  \<open>a\<close> (long enough to be a key point), a turn whose content is missing, a turn whose
  content is four entries of the positive and three entries of the negative lexicon, and
  a turn whose speaker is called \<open>constructor\<close>.
\<close>

definition mixedText :: jsstring where
  "mixedText =
     [0x5F88, 0x597D, 0x0020, 0x4F18, 0x79C0, 0x0020, 0x652F, 0x6301, 0x0020, 0x540C, 0x610F, 0x0020,
      0x95EE, 0x9898, 0x0020, 0x56F0, 0x96BE, 0x0020, 0x62C5, 0x5FC3]"

definition mixedTurn :: turn where
  "mixedTurn =
     \<lparr>speaker = Some (ascii ''B''), content = Some mixedText, timestamp = Some (ascii ''09:34'')\<rparr>"

definition constructorTurn :: turn where
  "constructorTurn =
     \<lparr>speaker = Some (ascii ''constructor''), content = Some (ascii ''ok''),
      timestamp = Some (ascii ''09:35'')\<rparr>"

definition quietTurn :: turn where
  "quietTurn =
     \<lparr>speaker = Some (ascii ''A''), content = Some (ascii ''ok''), timestamp = Some (ascii ''09:30'')\<rparr>"

definition praiseTurn :: turn where
  "praiseTurn =
     \<lparr>speaker = None, content = Some [0x5F88, 0x597D, 0x0020, 0x4F18, 0x79C0],
      timestamp = Some (ascii ''09:31'')\<rparr>"

definition loneTurn :: turn where
  "loneTurn =
     \<lparr>speaker = Some (ascii ''A''), content = Some (replicate 101 0x0061),
      timestamp = Some (ascii ''09:32'')\<rparr>"

definition brokenTurn :: turn where
  "brokenTurn =
     \<lparr>speaker = Some (ascii ''A''), content = None, timestamp = Some (ascii ''09:33'')\<rparr>"

section \<open>Lemmas about the rounding to binary64\<close>

lemma roundHalfEven_of_int: "roundHalfEven (of_int k) = k"
  by (simp add: roundHalfEven_def)

lemma roundHalfEven_lower: "of_int a \<le> q \<Longrightarrow> a \<le> roundHalfEven q"
proof -
  assume "of_int a \<le> q"
  then have "a \<le> \<lfloor>q\<rfloor>" by (simp add: le_floor_iff)
  moreover have "\<lfloor>q\<rfloor> \<le> roundHalfEven q" by (simp add: roundHalfEven_def Let_def)
  ultimately show ?thesis by simp
qed

lemma roundHalfEven_upper: "q \<le> of_int b \<Longrightarrow> roundHalfEven q \<le> b"
proof -
  assume qb: "q \<le> of_int b"
  have fb: "\<lfloor>q\<rfloor> \<le> b" using qb by (meson floor_le_iff le_less_trans less_add_one not_le floor_mono floor_of_int order_trans)
  show ?thesis
  proof (cases "q = of_int \<lfloor>q\<rfloor>")
    case True
    then have "roundHalfEven q = \<lfloor>q\<rfloor>" by (metis roundHalfEven_of_int)
    with fb show ?thesis by simp
  next
    case False
    moreover have "of_int \<lfloor>q\<rfloor> \<le> q" by simp
    ultimately have "of_int \<lfloor>q\<rfloor> < q" by (metis order_le_less)
    with qb have "of_int \<lfloor>q\<rfloor> < (of_int b :: rat)" by simp
    then have "\<lfloor>q\<rfloor> < b" by simp
    moreover have "roundHalfEven q \<le> \<lfloor>q\<rfloor> + 1" by (simp add: roundHalfEven_def Let_def)
    ultimately show ?thesis by simp
  qed
qed

lemma two_powi_nat: "0 \<le> k \<Longrightarrow> (2::rat) powi k = 2 ^ nat k"
  by (simp add: power_int_def)

lemma int_bounds_powi:
  fixes n :: int assumes "0 < n"
  shows "(2::rat) powi (bitlen n - 1) \<le> of_int n" and "of_int n < (2::rat) powi (bitlen n)"
proof -
  from assms have b1: "1 \<le> bitlen n" by (auto simp: bitlen_alt_def)
  from bitlen_bounds [OF assms] have lo: "2 ^ nat (bitlen n - 1) \<le> n" and hi: "n < 2 ^ nat (bitlen n)"
    by simp_all
  from lo have "(of_int (2 ^ nat (bitlen n - 1)) :: rat) \<le> of_int n" by (simp only: of_int_le_iff)
  then show "(2::rat) powi (bitlen n - 1) \<le> of_int n"
    using b1 by (simp add: two_powi_nat)
  from hi have "(of_int n :: rat) < of_int (2 ^ nat (bitlen n))" by (simp only: of_int_less_iff)
  then show "of_int n < (2::rat) powi (bitlen n)"
    using b1 by (simp add: two_powi_nat)
qed

lemma powi_two_pos [simp]: "0 < (2::rat) powi k"
  by simp

lemma powi_two_mono: "a \<le> b \<Longrightarrow> (2::rat) powi a \<le> 2 powi b"
  by (rule power_int_increasing) simp_all

lemma powi_two_less_imp: "(2::rat) powi a < 2 powi b \<Longrightarrow> a < b"
  by (metis not_le powi_two_mono)

lemma powi_two_Suc: "(2::rat) powi (k + 1) = 2 * 2 powi k"
  by (simp add: power_int_add)

lemma binaryExponent_bounds:
  assumes "0 < x"
  shows "2 powi (binaryExponent x) \<le> x" and "x < 2 powi (binaryExponent x + 1)"
proof -
  obtain n d where q: "quotient_of x = (n, d)" by (cases "quotient_of x")
  then have d: "0 < d" by (rule quotient_of_denom_pos)
  from q have x: "x = of_int n / of_int d" by (rule quotient_of_div)
  with assms d have n: "0 < n" by (simp add: zero_less_divide_iff)
  let ?k = "bitlen n - bitlen d"
  have dn: "(0::rat) < of_int d" using d by simp
  have lower: "(2::rat) powi (?k - 1) \<le> x"
  proof -
    have "(2::rat) powi (?k - 1) * of_int d \<le> 2 powi (?k - 1) * 2 powi (bitlen d)"
      using int_bounds_powi(2) [OF d] by (simp add: less_imp_le)
    also have "\<dots> = 2 powi (bitlen n - 1)"
      by (simp add: power_int_add [symmetric])
    also have "\<dots> \<le> of_int n" by (rule int_bounds_powi(1) [OF n])
    finally show ?thesis using dn by (simp add: x pos_le_divide_eq)
  qed
  have upper: "x < (2::rat) powi (?k + 1)"
  proof -
    have "(of_int n :: rat) < 2 powi (bitlen n)" by (rule int_bounds_powi(2) [OF n])
    also have "\<dots> = 2 powi (?k + 1) * 2 powi (bitlen d - 1)"
      by (simp add: power_int_add [symmetric])
    also have "\<dots> \<le> 2 powi (?k + 1) * of_int d"
      using int_bounds_powi(1) [OF d] by simp
    finally show ?thesis using dn by (simp add: x pos_divide_less_eq)
  qed
  have e: "binaryExponent x = (if 2 powi ?k \<le> x then ?k else ?k - 1)"
    by (simp add: binaryExponent_def q Let_def)
  show "2 powi (binaryExponent x) \<le> x"
    using lower by (simp add: e)
  show "x < 2 powi (binaryExponent x + 1)"
    using upper by (auto simp: e not_le)
qed

lemma binaryExponent_unique:
  assumes "2 powi e \<le> x" and "x < 2 powi (e + 1)"
  shows "binaryExponent x = e"
proof -
  have pos: "0 < x" using assms(1) powi_two_pos [of e] by (rule less_le_trans [rotated])
  from binaryExponent_bounds [OF pos] assms
  have "(2::rat) powi (binaryExponent x) < 2 powi (e + 1)" and "(2::rat) powi e < 2 powi (binaryExponent x + 1)"
    by auto
  then have "binaryExponent x < e + 1" and "e < binaryExponent x + 1"
    by (auto dest: powi_two_less_imp)
  then show ?thesis by simp
qed

lemma toDouble_representable:
  assumes "representable x"
  shows "toDouble x = x"
proof (cases "x = 0")
  case True
  then show ?thesis by (simp add: toDouble_def)
next
  case False
  from assms obtain m :: int and k :: int where m: "\<bar>m\<bar> < 2 ^ 53" and x: "x = of_int m * 2 powi k"
    by (auto simp: representable_def)
  let ?e = "binaryExponent \<bar>x\<bar>"
  have pos: "0 < \<bar>x\<bar>" using False by simp
  have ax: "\<bar>x\<bar> = of_int \<bar>m\<bar> * 2 powi k" by (simp add: x abs_mult)
  have "(2::rat) powi ?e \<le> \<bar>x\<bar>" by (rule binaryExponent_bounds(1) [OF pos])
  also have "\<bar>x\<bar> < 2 ^ 53 * 2 powi k"
  proof -
    have "(of_int \<bar>m\<bar> :: rat) < of_int (2 ^ 53)" using m by (simp only: of_int_less_iff)
    then show ?thesis by (simp add: ax)
  qed
  also have "(2::rat) ^ 53 * 2 powi k = 2 powi (53 + k)"
    by (simp add: power_int_add)
  finally have "?e < 53 + k" by (rule powi_two_less_imp)
  then have d: "0 \<le> k - ?e + 52" by simp
  have "x / 2 powi (?e - 52) = of_int m * (2 powi k / 2 powi (?e - 52))"
    by (simp add: x)
  also have "2 powi k / (2::rat) powi (?e - 52) = 2 powi (k - ?e + 52)"
    by (simp add: power_int_diff [symmetric] algebra_simps)
  also have "\<dots> = of_int (2 ^ nat (k - ?e + 52))"
    using d by (simp add: two_powi_nat)
  finally have q: "x / 2 powi (?e - 52) = of_int (m * 2 ^ nat (k - ?e + 52))"
    by simp
  have "toDouble x = of_int (roundHalfEven (x / 2 powi (?e - 52))) * 2 powi (?e - 52)"
    using False by (simp add: toDouble_def Let_def)
  also have "\<dots> = x / 2 powi (?e - 52) * 2 powi (?e - 52)"
    by (simp only: q roundHalfEven_of_int)
  also have "\<dots> = x" by simp
  finally show ?thesis .
qed

lemma abs_two_power_53:
  fixes K :: int
  assumes "\<bar>K\<bar> = 2 ^ 53"
  shows "K = 2 * (K div 2)" and "\<bar>K div 2\<bar> < 2 ^ 53"
proof -
  have "(2::int) ^ 53 = 9007199254740992" by simp
  with assms have "K = 9007199254740992 \<or> K = - 9007199254740992" by linarith
  then show "K = 2 * (K div 2)" and "\<bar>K div 2\<bar> < 2 ^ 53" by auto
qed

lemma representable_toDouble: "representable (toDouble x)"
proof (cases "x = 0")
  case True
  have "\<bar>0::int\<bar> < 2 ^ 53 \<and> (0::rat) = of_int 0 * 2 powi 0" by simp
  then have "representable 0" unfolding representable_def by blast
  with True show ?thesis by (simp add: toDouble_def)
next
  case False
  let ?e = "binaryExponent \<bar>x\<bar>"
  let ?u = "(2::rat) powi (?e - 52)"
  let ?K = "roundHalfEven (x / ?u)"
  have pos: "0 < \<bar>x\<bar>" using False by simp
  have td: "toDouble x = of_int ?K * ?u"
    using False by (simp add: toDouble_def Let_def)
  have lo: "2 ^ 52 \<le> \<bar>x\<bar> / ?u"
  proof -
    have "(2::rat) ^ 52 * ?u = 2 powi ?e"
      by (simp add: power_int_diff)
    also have "\<dots> \<le> \<bar>x\<bar>" by (rule binaryExponent_bounds(1) [OF pos])
    finally show ?thesis by (simp add: pos_le_divide_eq)
  qed
  have hi: "\<bar>x\<bar> / ?u \<le> 2 ^ 53"
  proof -
    have "\<bar>x\<bar> < 2 powi (?e + 1)" by (rule binaryExponent_bounds(2) [OF pos])
    also have "\<dots> = (2::rat) ^ 53 * ?u"
      by (simp add: power_int_diff power_int_add)
    finally show ?thesis by (simp add: pos_divide_le_eq less_imp_le)
  qed
  have K: "\<bar>?K\<bar> \<le> 2 ^ 53"
  proof (cases "0 < x")
    case True
    then have "x / ?u \<le> of_int (2 ^ 53)" using hi by simp
    then have "?K \<le> 2 ^ 53" by (rule roundHalfEven_upper)
    moreover have "of_int (2 ^ 52) \<le> x / ?u" using lo True by simp
    then have "2 ^ 52 \<le> ?K" by (rule roundHalfEven_lower)
    ultimately show ?thesis by simp
  next
    case neg: False
    with False have xn: "\<bar>x\<bar> = - x" by simp
    have "of_int (- (2 ^ 53)) \<le> x / ?u" using hi by (simp add: xn)
    then have "- (2 ^ 53) \<le> ?K" by (rule roundHalfEven_lower)
    moreover have "x / ?u \<le> of_int (- (2 ^ 52))" using lo by (simp add: xn)
    then have "?K \<le> - (2 ^ 52)" by (rule roundHalfEven_upper)
    ultimately show ?thesis by simp
  qed
  show ?thesis
  proof (cases "\<bar>?K\<bar> < 2 ^ 53")
    case True
    then show ?thesis unfolding representable_def td by blast
  next
    case False
    with K have "\<bar>?K\<bar> = 2 ^ 53" by simp
    then have half: "?K = 2 * (?K div 2)" and small: "\<bar>?K div 2\<bar> < 2 ^ 53"
      by (rule abs_two_power_53)+
    have "of_int ?K * ?u = of_int (2 * (?K div 2)) * ?u"
      using half by simp
    also have "\<dots> = of_int (?K div 2) * (2 * ?u)" by simp
    also have "2 * ?u = 2 powi (?e - 52 + 1)" by (simp only: powi_two_Suc)
    finally have "toDouble x = of_int (?K div 2) * 2 powi (?e - 52 + 1)"
      by (simp only: td)
    with small show ?thesis unfolding representable_def by blast
  qed
qed

lemma toDouble_idem: "toDouble (toDouble x) = toDouble x"
  by (rule toDouble_representable) (rule representable_toDouble)

lemma toDouble_0 [simp]: "toDouble 0 = 0"
  by (simp add: toDouble_def)

lemma toDouble_of_int_small: "\<bar>m\<bar> < 2 ^ 53 \<Longrightarrow> toDouble (of_int m) = of_int m"
proof -
  assume "\<bar>m\<bar> < 2 ^ 53"
  then have "\<bar>m\<bar> < 2 ^ 53 \<and> (of_int m :: rat) = of_int m * 2 powi 0" by simp
  then have "representable (of_int m)" unfolding representable_def by blast
  then show ?thesis by (rule toDouble_representable)
qed

lemma double_0_3_nearest: "toDouble (3/10) = double_0_3"
  by code_simp

lemma float_mul_commute: "float_mul x y = float_mul y x"
  by (simp add: float_mul_def mult.commute)

lemma float_add_0_float_mul: "float_add 0 (float_mul x y) = float_mul x y"
  by (simp add: float_add_def float_mul_def toDouble_idem)

section \<open>Lemmas about the helper methods and the loops\<close>

lemma js_includes_occursIn: "js_includes s pattern \<longleftrightarrow> occursIn pattern s"
proof (induction s)
  case Nil
  show ?case by (auto simp: occursIn_def)
next
  case (Cons c cs)
  have "occursIn pattern (c # cs) \<longleftrightarrow> take (length pattern) (c # cs) = pattern \<or> occursIn pattern cs"
  proof
    assume "occursIn pattern (c # cs)"
    then obtain before after where eq: "c # cs = before @ pattern @ after"
      by (auto simp: occursIn_def)
    show "take (length pattern) (c # cs) = pattern \<or> occursIn pattern cs"
    proof (cases before)
      case Nil
      with eq show ?thesis by simp
    next
      case (Cons b bs)
      with eq have "cs = bs @ pattern @ after" by simp
      then show ?thesis by (auto simp: occursIn_def)
    qed
  next
    assume "take (length pattern) (c # cs) = pattern \<or> occursIn pattern cs"
    then show "occursIn pattern (c # cs)"
    proof
      assume "take (length pattern) (c # cs) = pattern"
      then have "c # cs = [] @ pattern @ drop (length pattern) (c # cs)"
        by (metis append_Nil append_take_drop_id)
      then show ?thesis unfolding occursIn_def by blast
    next
      assume "occursIn pattern cs"
      then obtain before after where "cs = before @ pattern @ after"
        by (auto simp: occursIn_def)
      then have "c # cs = (c # before) @ pattern @ after" by simp
      then show ?thesis unfolding occursIn_def by blast
    qed
  qed
  with Cons show ?case by simp
qed

lemma js_Set_set [simp]: "set (js_Set xs) = set xs"
  by (simp add: js_Set_def)

lemma js_Set_distinct [simp]: "distinct (js_Set xs)"
  by (simp add: js_Set_def)

lemma js_Set_size: "length (js_Set xs) = card (set xs)"
  by (metis js_Set_distinct js_Set_set distinct_card)

lemma splitFrom_nonempty: "splitFrom cur inSep s \<noteq> []"
  by (induction s arbitrary: cur inSep) auto

lemma splitWhitespace_nonempty: "splitWhitespace s \<noteq> []"
  by (simp add: splitWhitespace_def splitFrom_nonempty)

lemma tokenSet_finite [simp]: "finite (tokenSet lc s)"
  by (simp add: tokenSet_def)

lemma tokenSet_nonempty: "tokenSet lc s \<noteq> {}"
  by (simp add: tokenSet_def splitWhitespace_nonempty)

lemma calculateSimilarity_tokens:
  "calculateSimilarity lc a b =
     Num (of_nat (card (tokenSet lc a \<inter> tokenSet lc b)) / of_nat (card (tokenSet lc a \<union> tokenSet lc b)))"
proof -
  let ?w1 = "js_Set (splitWhitespace (lc a))" and ?w2 = "js_Set (splitWhitespace (lc b))"
  have inter: "length (js_Set (filter (\<lambda>word. word \<in> set ?w2) ?w1)) = card (tokenSet lc a \<inter> tokenSet lc b)"
  proof -
    have "set (filter (\<lambda>word. word \<in> set ?w2) ?w1) = tokenSet lc a \<inter> tokenSet lc b"
      by (auto simp: tokenSet_def)
    then show ?thesis by (simp only: js_Set_size)
  qed
  have union: "length (js_Set (?w1 @ ?w2)) = card (tokenSet lc a \<union> tokenSet lc b)"
    by (simp add: js_Set_size tokenSet_def)
  have "card (tokenSet lc a \<union> tokenSet lc b) \<noteq> 0"
    using tokenSet_nonempty [of lc a] by simp
  then have "js_div (of_nat (card (tokenSet lc a \<inter> tokenSet lc b))) (of_nat (card (tokenSet lc a \<union> tokenSet lc b)))
      = Num (of_nat (card (tokenSet lc a \<inter> tokenSet lc b)) / of_nat (card (tokenSet lc a \<union> tokenSet lc b)))"
    by (simp add: js_div_def)
  then show ?thesis
    unfolding calculateSimilarity_def Let_def inter union .
qed

lemma calculateSimilarity_self: "calculateSimilarity lc a a = Num 1"
  using tokenSet_nonempty [of lc a] by (simp add: calculateSimilarity_tokens)

lemma jaccard_bounds:
  assumes "finite A" "finite B" "A \<noteq> {}"
  shows "0 \<le> (of_nat (card (A \<inter> B)) / of_nat (card (A \<union> B)) :: rat)"
    and "(of_nat (card (A \<inter> B)) / of_nat (card (A \<union> B)) :: rat) \<le> 1"
proof -
  show "0 \<le> (of_nat (card (A \<inter> B)) / of_nat (card (A \<union> B)) :: rat)" by simp
  have "card (A \<inter> B) \<le> card (A \<union> B)"
    using assms by (intro card_mono) auto
  moreover have "0 < card (A \<union> B)" using assms by (simp add: card_gt_0_iff)
  ultimately show "(of_nat (card (A \<inter> B)) / of_nat (card (A \<union> B)) :: rat) \<le> 1"
    by (simp add: divide_le_eq_1)
qed

lemma scoreOn:
  "analyzeSentimentScoreOn [(Positive, pos), (Negative, neg), (Neutral, neu)] lc s
     = max (- 1) (min 1 (float_sub (float_mul double_0_3 (of_nat (lexiconMatches pos lc s)))
                                   (float_mul double_0_3 (of_nat (lexiconMatches neg lc s)))))"
  by (simp add: analyzeSentimentScoreOn_def lexiconMatches_def Let_def float_add_0_float_mul
        float_mul_commute [of double_0_3])

lemma error_is_TypeError: "(e :: error) = TypeError"
  by (cases e) simp

lemma forEach_snoc:
  "forEach f i (xs @ [x]) s =
     (case forEach f i xs s of Inl e \<Rightarrow> Inl e | Inr s' \<Rightarrow> f (i + length xs) x s')"
  by (induction xs arbitrary: i s) (auto split: sum.splits)

lemma forEach_raises:
  assumes "\<exists>x \<in> set xs. \<forall>i s. f i x s = Inl TypeError"
  shows "forEach f i xs s = Inl TypeError"
  using assms
proof (induction xs arbitrary: i s)
  case Nil
  then show ?case by simp
next
  case (Cons x xs)
  show ?case
  proof (cases "f i x s")
    case (Inl e)
    then show ?thesis by (simp add: error_is_TypeError [of e])
  next
    case (Inr s')
    with Cons.prems have "\<exists>y \<in> set xs. \<forall>i s. f i y s = Inl TypeError" by auto
    then have "forEach f (Suc i) xs s' = Inl TypeError" by (rule Cons.IH)
    with Inr show ?thesis by simp
  qed
qed

lemma forEach_invariant:
  assumes "P s"
    and "\<And>x i s. x \<in> set xs \<Longrightarrow> P s \<Longrightarrow> \<exists>s'. f i x s = Inr s' \<and> P s'"
  shows "\<exists>s'. forEach f i xs s = Inr s' \<and> P s'"
  using assms
proof (induction xs arbitrary: i s)
  case Nil
  then show ?case by simp
next
  case (Cons x xs)
  from Cons.prems obtain s1 where s1: "f i x s = Inr s1" "P s1"
    by (meson list.set_intros(1))
  have "\<exists>s'. forEach f (Suc i) xs s1 = Inr s' \<and> P s'"
    using s1(2) Cons.prems(2) by (intro Cons.IH) auto
  with s1 show ?case by simp
qed

lemma filterE_total:
  assumes "\<And>x. x \<in> set xs \<Longrightarrow> p x = Inr (q x)"
  shows "filterE p xs = Inr (filter q xs)"
  using assms by (induction xs) auto

lemma filterE_raises:
  assumes "\<exists>x \<in> set xs. p x = Inl TypeError"
  shows "filterE p xs = Inl TypeError"
  using assms
proof (induction xs)
  case Nil
  then show ?case by simp
next
  case (Cons x xs)
  show ?case
  proof (cases "p x")
    case (Inl e)
    then show ?thesis by (simp add: error_is_TypeError [of e])
  next
    case (Inr keep)
    with Cons.prems have "\<exists>y \<in> set xs. p y = Inl TypeError" by auto
    then have "filterE p xs = Inl TypeError" by (rule Cons.IH)
    with Inr show ?thesis by simp
  qed
qed

lemma calculateConsensusLevel_total:
  assumes "hasContent dialogue"
  shows "calculateConsensusLevel lc dialogue c =
           Inr (min 1 (of_nat (length (similarTurns lc dialogue c)) / 3))"
proof -
  have "filterE (\<lambda>msg. case content msg of None \<Rightarrow> Inl TypeError
            | Some other \<Rightarrow> Inr (js_gt (calculateSimilarity lc other c) (Num (6/10)))) dialogue
        = Inr (similarTurns lc dialogue c)"
    unfolding similarTurns_def
    using assms by (intro filterE_total) (auto simp: hasContent_def contentOf_def)
  then show ?thesis by (simp add: calculateConsensusLevel_def)
qed

lemma similarTurns_self:
  assumes "t \<in> set dialogue" "content t = Some c"
  shows "t \<in> set (similarTurns lc dialogue c)"
  using assms by (simp add: similarTurns_def contentOf_def calculateSimilarity_self)

lemma consensus_at_least_third:
  assumes "t \<in> set dialogue" "content t = Some c"
  shows "(1/3 :: rat) \<le> min 1 (of_nat (length (similarTurns lc dialogue c)) / 3)"
proof -
  have "similarTurns lc dialogue c \<noteq> []"
    using similarTurns_self [OF assms, of lc] by auto
  then have "1 \<le> length (similarTurns lc dialogue c)"
    by (cases "similarTurns lc dialogue c") auto
  then have "(1 :: rat) \<le> of_nat (length (similarTurns lc dialogue c))"
    by (metis of_nat_1 of_nat_le_iff)
  then show ?thesis by simp
qed

lemma keyPointsStep_no_controversy:
  assumes "hasContent dialogue" "t \<in> set dialogue"
  shows "\<exists>vars'. keyPointsStep lc dialogue index t vars = Inr vars' \<and>
           varControversialTopics vars' = varControversialTopics vars"
proof -
  from assms obtain c where c: "content t = Some c"
    by (auto simp: hasContent_def)
  have level: "\<not> min 1 (of_nat (length (similarTurns lc dialogue c)) / 3) < (3/10 :: rat)"
    using consensus_at_least_third [OF assms(2) c, of lc] by simp
  show ?thesis
    using level
    by (simp add: keyPointsStep_def c calculateConsensusLevel_total [OF assms(1)] Let_def)
qed

lemma keyPointsStep_raises:
  assumes "content t = None"
  shows "keyPointsStep lc dialogue index t vars = Inl TypeError"
  using assms by (simp add: keyPointsStep_def)

lemma analyzeKeyPoints_no_controversy:
  assumes "hasContent dialogue"
  shows "\<exists>r. analyzeKeyPoints lc dialogue = Inr r \<and> controversialTopics r = []"
proof -
  have "\<exists>vars. forEach (keyPointsStep lc dialogue) 0 dialogue
            keyPointsVars0 = Inr vars
          \<and> varControversialTopics vars = []"
  proof (rule forEach_invariant)
    show "varControversialTopics keyPointsVars0 = []" by (simp add: keyPointsVars0_def)
  next
    fix x i and s :: keypoints_vars
    assume "x \<in> set dialogue" "varControversialTopics s = []"
    then show "\<exists>s'. keyPointsStep lc dialogue i x s = Inr s' \<and> varControversialTopics s' = []"
      using keyPointsStep_no_controversy [OF assms, of x lc i s] by auto
  qed
  then obtain vars where "forEach (keyPointsStep lc dialogue) 0 dialogue
            keyPointsVars0 = Inr vars"
     "varControversialTopics vars = []" by blast
  then show ?thesis by (simp add: analyzeKeyPoints_def Let_def)
qed

lemma analyzeKeyPoints_raises:
  assumes "\<exists>t \<in> set dialogue. content t = None"
  shows "analyzeKeyPoints lc dialogue = Inl TypeError"
proof -
  have "forEach (keyPointsStep lc dialogue) 0 dialogue
            keyPointsVars0 = Inl TypeError"
  proof (rule forEach_raises)
    from assms obtain t where "t \<in> set dialogue" "content t = None" by blast
    then show "\<exists>x \<in> set dialogue. \<forall>i s. keyPointsStep lc dialogue i x s = Inl TypeError"
      using keyPointsStep_raises by blast
  qed
  then show ?thesis by (simp add: analyzeKeyPoints_def)
qed

lemma scoreAt_snoc:
  "i < length d \<Longrightarrow> scoreAt lc (d @ [t]) i = scoreAt lc d i"
  "scoreAt lc (d @ [t]) (length d) = analyzeSentimentScore lc (contentOf t)"
  by (simp_all add: scoreAt_def nth_append)

lemma trendEntryAt_snoc:
  "i < length d \<Longrightarrow> trendEntryAt lc (d @ [t]) i = trendEntryAt lc d i"
  by (simp add: trendEntryAt_def scoreAt_snoc nth_append)

lemma scoreChange_snoc:
  "i < length d \<Longrightarrow> scoreChange lc (d @ [t]) i = scoreChange lc d i"
  by (simp add: scoreChange_def scoreAt_snoc)

lemma isTurningPoint_snoc:
  "i < length d \<Longrightarrow> isTurningPoint lc (d @ [t]) i = isTurningPoint lc d i"
  by (simp add: isTurningPoint_def scoreChange_snoc)

lemma turningPointAt_snoc:
  "i < length d \<Longrightarrow> turningPointAt lc (d @ [t]) i = turningPointAt lc d i"
  by (simp add: turningPointAt_def scoreAt_snoc scoreChange_snoc nth_append)

lemma fullTrend_snoc:
  "fullTrend lc (d @ [t]) = fullTrend lc d @ [trendEntryAt lc (d @ [t]) (length d)]"
  by (simp add: fullTrend_def trendEntryAt_snoc)

lemma detectedTurningPoints_snoc:
  "detectedTurningPoints lc (d @ [t]) =
     detectedTurningPoints lc d @
       (if isTurningPoint lc (d @ [t]) (length d) then [turningPointAt lc (d @ [t]) (length d)] else [])"
proof -
  have "filter (isTurningPoint lc (d @ [t])) [0..<length d] = filter (isTurningPoint lc d) [0..<length d]"
    by (rule filter_cong) (simp_all add: isTurningPoint_snoc)
  moreover have "map (turningPointAt lc (d @ [t])) (filter (isTurningPoint lc d) [0..<length d])
      = map (turningPointAt lc d) (filter (isTurningPoint lc d) [0..<length d])"
    by (rule map_cong) (simp_all add: turningPointAt_snoc)
  ultimately show ?thesis
    by (simp add: detectedTurningPoints_def)
qed

lemma generateTurningPointEvent_description:
  "generateTurningPointEvent c change = turningPointDescription c change"
  by (simp add: generateTurningPointEvent_def turningPointDescription_def substring_def)

lemma sentimentStep_raises:
  "content t = None \<or> propertyKey (speaker t) \<in> set objectPrototypeKeys \<Longrightarrow>
   sentimentStep lc index t vars = Inl TypeError"
  by (auto simp: sentimentStep_def Let_def split: option.splits)

lemma sentimentStep_effect:
  assumes "content t = Some c" and "propertyKey (speaker t) \<notin> set objectPrototypeKeys"
    and "length (varSentimentTrend vars) = index"
  shows "\<exists>vars'. sentimentStep lc index t vars = Inr vars' \<and>
     varSentimentTrend vars' = varSentimentTrend vars @
       [\<lparr>timeIndex = index, sentiment = analyzeSentimentScore lc c,
         trendSpeaker = speaker t, trendTimestamp = timestamp t\<rparr>] \<and>
     varTurningPoints vars' = varTurningPoints vars @
       (if 0 < index \<and>
           \<bar>float_sub (analyzeSentimentScore lc c)
              (trend_entry.sentiment (varSentimentTrend vars ! (index - 1)))\<bar> > 1/2
        then [\<lparr>pointTimeIndex = index, pointTimestamp = timestamp t,
               event = turningPointDescription c
                 (float_sub (analyzeSentimentScore lc c)
                    (trend_entry.sentiment (varSentimentTrend vars ! (index - 1)))),
               impact = \<bar>float_sub (analyzeSentimentScore lc c)
                          (trend_entry.sentiment (varSentimentTrend vars ! (index - 1)))\<bar>,
               recovery = (if analyzeSentimentScore lc c > 0 then labelPositive else labelNegative)\<rparr>]
        else [])"
proof -
  have "index - Suc 0 < Suc index" by arith
  with assms show ?thesis
    by (simp add: sentimentStep_def Let_def elementAt_def nth_append
          generateTurningPointEvent_description)
qed

lemma sentiment_loop:
  assumes "hasContent dialogue" and "ordinarySpeakers dialogue"
  shows "\<exists>vars. forEach (sentimentStep lc) 0 dialogue sentimentVars0 = Inr vars \<and>
           varSentimentTrend vars = fullTrend lc dialogue \<and>
           varTurningPoints vars = detectedTurningPoints lc dialogue"
  using assms
proof (induction dialogue rule: rev_induct)
  case Nil
  show ?case by (simp add: sentimentVars0_def fullTrend_def detectedTurningPoints_def)
next
  case (snoc t d)
  from snoc.prems have "hasContent d" and "content t \<noteq> None"
    and "ordinarySpeakers d" and key: "propertyKey (speaker t) \<notin> set objectPrototypeKeys"
    by (simp_all add: hasContent_def ordinarySpeakers_def)
  then obtain c where c: "content t = Some c" by auto
  from snoc.IH [OF \<open>hasContent d\<close> \<open>ordinarySpeakers d\<close>] obtain vars where
    vars: "forEach (sentimentStep lc) 0 d sentimentVars0 = Inr vars"
      "varSentimentTrend vars = fullTrend lc d"
      "varTurningPoints vars = detectedTurningPoints lc d" by blast
  have len: "length (varSentimentTrend vars) = length d"
    by (simp add: vars(2) fullTrend_def)
  from sentimentStep_effect [OF c key len, of lc] obtain vars' where
    step: "sentimentStep lc (length d) t vars = Inr vars'"
    and trend: "varSentimentTrend vars' = varSentimentTrend vars @
       [\<lparr>timeIndex = length d, sentiment = analyzeSentimentScore lc c,
         trendSpeaker = speaker t, trendTimestamp = timestamp t\<rparr>]"
    and points: "varTurningPoints vars' = varTurningPoints vars @
       (if 0 < length d \<and>
           \<bar>float_sub (analyzeSentimentScore lc c)
              (trend_entry.sentiment (varSentimentTrend vars ! (length d - 1)))\<bar> > 1/2
        then [\<lparr>pointTimeIndex = length d, pointTimestamp = timestamp t,
               event = turningPointDescription c
                 (float_sub (analyzeSentimentScore lc c)
                    (trend_entry.sentiment (varSentimentTrend vars ! (length d - 1)))),
               impact = \<bar>float_sub (analyzeSentimentScore lc c)
                          (trend_entry.sentiment (varSentimentTrend vars ! (length d - 1)))\<bar>,
               recovery = (if analyzeSentimentScore lc c > 0 then labelPositive else labelNegative)\<rparr>]
        else [])"
    by blast
  have cOf: "contentOf t = c" by (simp add: contentOf_def c)
  have prev: "0 < length d \<Longrightarrow>
      trend_entry.sentiment (varSentimentTrend vars ! (length d - 1)) = scoreAt lc (d @ [t]) (length d - 1)"
    by (simp add: vars(2) fullTrend_def trendEntryAt_def scoreAt_snoc)
  have run: "forEach (sentimentStep lc) 0 (d @ [t]) sentimentVars0 = Inr vars'"
    by (simp add: forEach_snoc vars(1) step)
  have t1: "varSentimentTrend vars' = fullTrend lc (d @ [t])"
    by (simp add: trend vars(2) fullTrend_snoc trendEntryAt_def scoreAt_snoc cOf)
  have t2: "varTurningPoints vars' = detectedTurningPoints lc (d @ [t])"
  proof (cases "0 < length d")
    case True
    show ?thesis
      using prev [OF True] True
      by (simp add: points vars(3) detectedTurningPoints_snoc isTurningPoint_def turningPointAt_def
            scoreChange_def scoreAt_snoc cOf)
  next
    case False
    then show ?thesis
      by (simp add: points vars(3) detectedTurningPoints_def isTurningPoint_def)
  qed
  from run t1 t2 show ?case by blast
qed

lemma analyzeSentiment_lists:
  assumes "hasContent dialogue" and "ordinarySpeakers dialogue"
  shows "\<exists>r. analyzeSentiment lc dialogue = Inr r \<and>
           sentimentTrend r = take 50 (fullTrend lc dialogue) \<and>
           turningPoints r = take 8 (detectedTurningPoints lc dialogue)"
proof -
  from sentiment_loop [OF assms, of lc] obtain vars where
    "forEach (sentimentStep lc) 0 dialogue sentimentVars0 = Inr vars"
    "varSentimentTrend vars = fullTrend lc dialogue"
    "varTurningPoints vars = detectedTurningPoints lc dialogue" by blast
  then show ?thesis
    by (simp add: analyzeSentiment_def sentimentVars0_def Let_def)
qed

lemma analyzeSentiment_raises:
  assumes "\<exists>t \<in> set dialogue.
             content t = None \<or> propertyKey (speaker t) \<in> set objectPrototypeKeys"
  shows "analyzeSentiment lc dialogue = Inl TypeError"
proof -
  from assms obtain t where "t \<in> set dialogue"
    "content t = None \<or> propertyKey (speaker t) \<in> set objectPrototypeKeys" by blast
  then have "\<exists>x \<in> set dialogue. \<forall>i s. sentimentStep lc i x s = Inl TypeError"
    using sentimentStep_raises by blast
  then have "forEach (sentimentStep lc) 0 dialogue sentimentVars0 = Inl TypeError"
    by (rule forEach_raises)
  then show ?thesis by (simp add: analyzeSentiment_def sentimentVars0_def)
qed


lemma detectTopics_nonempty: "detectTopics c \<noteq> []"
  by (simp add: detectTopics_def Let_def)

lemma countTopic_nonempty: "countTopic t table \<noteq> []"
  by (cases table) (auto split: if_splits)

lemma topicsStep_raises:
  "content t = None \<Longrightarrow> topicsStep rnd dialogue index t vars = Inl TypeError"
  by (simp add: topicsStep_def)

lemma countDetectedTopic_nonempty:
  "varThemeDistribution (countDetectedTopic index message c t vars) \<noteq> []"
  by (simp add: countDetectedTopic_def Let_def countTopic_nonempty)

lemma countDetectedTopic_fold_nonempty:
  "ts \<noteq> [] \<Longrightarrow> varThemeDistribution (fold (countDetectedTopic index message c) ts vars) \<noteq> []"
  by (induction ts rule: rev_induct) (simp_all add: countDetectedTopic_nonempty)

lemma recordEvolution_fold_distribution:
  "varThemeDistribution (fold (recordEvolution rnd index) ts vars) = varThemeDistribution vars"
  by (induction ts arbitrary: vars) (simp_all add: recordEvolution_def)

lemma topicsStep_counts:
  assumes "content t = Some c"
  shows "\<exists>vars'. topicsStep rnd dialogue index t vars = Inr vars' \<and> varThemeDistribution vars' \<noteq> []"
  using assms countDetectedTopic_fold_nonempty [OF detectTopics_nonempty, of index t c c vars]
  by (simp add: topicsStep_def Let_def recordEvolution_fold_distribution)

lemma themeTransitionStep_total:
  assumes "content t = Some c"
  shows "\<exists>vars'. themeTransitionStep index t vars = Inr vars'"
  using assms by (simp add: themeTransitionStep_def split: list.splits)

lemma themeTransitionStep_raises:
  "content t = None \<Longrightarrow> themeTransitionStep index t vars = Inl TypeError"
  by (simp add: themeTransitionStep_def)

lemma analyzeThemeTransitions_total:
  assumes "hasContent dialogue"
  shows "\<exists>transitions. analyzeThemeTransitions dialogue = Inr transitions"
proof -
  have "\<exists>vars. forEach themeTransitionStep 0 dialogue ([], Null) = Inr vars \<and> True"
  proof (rule forEach_invariant)
    fix x i and s :: "transition list \<times> last_topic"
    assume "x \<in> set dialogue"
    with assms obtain c where "content x = Some c" by (auto simp: hasContent_def)
    then show "\<exists>s'. themeTransitionStep i x s = Inr s' \<and> True"
      using themeTransitionStep_total by simp
  qed simp
  then show ?thesis
    by (auto simp: analyzeThemeTransitions_def split: prod.splits)
qed

lemma reduce1_nonempty: "xs \<noteq> [] \<Longrightarrow> \<exists>y. reduce1 f xs = Inr y"
  by (cases xs) auto

lemma topics_loop:
  assumes "hasContent dialogue" "dialogue \<noteq> []"
  shows "\<exists>vars. forEach (topicsStep rnd dialogue) 0 dialogue topicsVars0 = Inr vars
           \<and> varThemeDistribution vars \<noteq> []"
proof -
  have step: "\<exists>s'. topicsStep rnd dialogue i x s = Inr s' \<and> varThemeDistribution s' \<noteq> []"
    if "x \<in> set dialogue" for x i s
  proof -
    from that assms(1) obtain c where "content x = Some c" by (auto simp: hasContent_def)
    then show ?thesis by (rule topicsStep_counts)
  qed
  have tail: "\<exists>vars. forEach (topicsStep rnd dialogue) i xs s = Inr vars \<and> varThemeDistribution vars \<noteq> []"
    if "set xs \<subseteq> set dialogue" "varThemeDistribution s \<noteq> []" for xs i s
  proof (rule forEach_invariant)
    show "varThemeDistribution s \<noteq> []" by (rule that(2))
  next
    fix x j and s' :: topics_vars
    assume "x \<in> set xs"
    with that(1) have "x \<in> set dialogue" by auto
    then show "\<exists>s''. topicsStep rnd dialogue j x s' = Inr s'' \<and> varThemeDistribution s'' \<noteq> []"
      by (rule step)
  qed
  from assms(2) obtain x xs where d: "dialogue = x # xs" by (cases dialogue) auto
  then have "x \<in> set dialogue" by simp
  from step [OF this, of 0 topicsVars0] obtain s1 where
    s1: "topicsStep rnd dialogue 0 x topicsVars0 = Inr s1" "varThemeDistribution s1 \<noteq> []" by blast
  have "set xs \<subseteq> set dialogue" using d by auto
  from tail [OF this s1(2), of "Suc 0"] obtain vars where
    "forEach (topicsStep rnd dialogue) (Suc 0) xs s1 = Inr vars" "varThemeDistribution vars \<noteq> []"
    by blast
  then have "forEach (topicsStep rnd dialogue) 0 (x # xs) topicsVars0 = Inr vars"
    using s1(1) by simp
  with d \<open>varThemeDistribution vars \<noteq> []\<close> show ?thesis by metis
qed

lemma analyzeTopics_total:
  assumes "hasContent dialogue" "dialogue \<noteq> []"
  shows "\<exists>r. analyzeTopics rnd dialogue = Inr r"
proof -
  from topics_loop [OF assms, of rnd] obtain vars where
    vars: "forEach (topicsStep rnd dialogue) 0 dialogue topicsVars0 = Inr vars"
      "varThemeDistribution vars \<noteq> []" by blast
  from analyzeThemeTransitions_total [OF assms(1)] obtain transitions where
    tr: "analyzeThemeTransitions dialogue = Inr transitions" by blast
  have "map fst (varThemeDistribution vars) \<noteq> []" using vars(2) by simp
  from reduce1_nonempty [OF this] obtain dominant where
    "reduce1 (\<lambda>a b. case (map_of (varThemeDistribution vars) a, map_of (varThemeDistribution vars) b) of
                                        (Some x, Some y) \<Rightarrow> if x > y then a else b
                                      | _ \<Rightarrow> b) (map fst (varThemeDistribution vars)) = Inr dominant"
    by blast
  with vars(1) tr show ?thesis
    by (simp add: analyzeTopics_def topicsVars0_def Let_def)
qed

lemma analyzeTopics_raises:
  assumes "\<exists>t \<in> set dialogue. content t = None"
  shows "analyzeTopics rnd dialogue = Inl TypeError"
proof -
  from assms obtain t where "t \<in> set dialogue" "content t = None" by blast
  then have "\<exists>x \<in> set dialogue. \<forall>i s. topicsStep rnd dialogue i x s = Inl TypeError"
    using topicsStep_raises by blast
  then have "forEach (topicsStep rnd dialogue) 0 dialogue topicsVars0 = Inl TypeError"
    by (rule forEach_raises)
  then show ?thesis by (simp add: analyzeTopics_def topicsVars0_def)
qed

lemma analyzeTopics_empty: "analyzeTopics rnd [] = Inl TypeError"
  by (simp add: analyzeTopics_def analyzeThemeTransitions_def topicsVars0_def)

lemma analyzeSentiment_empty:
  "\<exists>r. analyzeSentiment lc [] = Inr r \<and> healthScore r = NaN \<and> turningPoints r = []
       \<and> map entryValue (sentimentDistribution r) = [0, 0, 0]"
  by (simp add: analyzeSentiment_def sentimentVars0_def Let_def js_div_def js_sub_def js_max_def
        js_min_def calculateEmotionalVariance_def)

lemma analyzeKeyPoints_empty:
  "\<exists>r. analyzeKeyPoints lc [] = Inr r \<and> keyPoints r = []"
  by (simp add: analyzeKeyPoints_def keyPointsVars0_def Let_def)

lemmas text_eval = ascii_def asciiLower_def splitWhitespace_def isWhiteSpace_def
  analyzeSentimentScore_def analyzeSentimentScoreOn_def sentimentIndicators_def
  positiveIndicators_def negativeIndicators_def neutralIndicators_def

lemma score_quiet: "analyzeSentimentScore asciiLower (ascii ''ok'') = 0"
  by (simp add: text_eval float_add_def float_sub_def float_mul_def)




lemma matches_mixed:
  "lexiconMatches positiveIndicators asciiLower mixedText = 4"
  "lexiconMatches negativeIndicators asciiLower mixedText = 3"
proof -
  have sp: "splitWhitespace (asciiLower mixedText)
      = [[0x5F88, 0x597D], [0x4F18, 0x79C0], [0x652F, 0x6301], [0x540C, 0x610F],
         [0x95EE, 0x9898], [0x56F0, 0x96BE], [0x62C5, 0x5FC3]]"
    by (simp add: mixedText_def asciiLower_def splitWhitespace_def isWhiteSpace_def)
  show "lexiconMatches positiveIndicators asciiLower mixedText = 4"
    by (simp add: lexiconMatches_def sp positiveIndicators_def)
  show "lexiconMatches negativeIndicators asciiLower mixedText = 3"
    by (simp add: lexiconMatches_def sp negativeIndicators_def)
qed

lemma four_minus_three:
  "max (- 1) (min 1 (float_sub (float_mul double_0_3 4) (float_mul double_0_3 3)))
     = 1351079888211149 / 4503599627370496"
  by code_simp



lemma ordinary_examples:
  "propertyKey (speaker quietTurn) \<notin> set objectPrototypeKeys"
  "propertyKey (speaker praiseTurn) \<notin> set objectPrototypeKeys"
  "propertyKey (speaker constructorTurn) \<in> set objectPrototypeKeys"
  by (simp_all add: propertyKey_def objectPrototypeKeys_def quietTurn_def praiseTurn_def
        constructorTurn_def ascii_def)

lemma inherited_speaker_raises: "analyzeSentiment asciiLower [constructorTurn] = Inl TypeError"
  by (rule analyzeSentiment_raises) (simp add: ordinary_examples)

lemma hasContent_lone: "hasContent [loneTurn]"
  by (simp add: hasContent_def loneTurn_def)

lemma tokens_ab: "tokenSet asciiLower (ascii ''A b c'') = {ascii ''a'', ascii ''b'', ascii ''c''}"
  by (simp add: tokenSet_def asciiLower_def ascii_def splitWhitespace_def isWhiteSpace_def)

lemma tokens_ad: "tokenSet asciiLower (ascii ''a B d'') = {ascii ''a'', ascii ''b'', ascii ''d''}"
  by (simp add: tokenSet_def asciiLower_def ascii_def splitWhitespace_def isWhiteSpace_def)


section \<open>The properties of the specification\<close>

text \<open>
  C1. The specification says that every analysis of the empty conversation returns neutral
  defaults without an error. The code does so in \<open>analyzeKeyPoints\<close> only.
  \<open>analyzeTopics\<close> of the empty conversation raises a \<open>TypeError\<close>, because the
  \<open>reduce\<close> that picks the dominant theme runs over no keys and has no initial value; and
  \<open>analyzeSentiment\<close> divides zero counts by zero messages, so that its health score is
  \<open>NaN\<close>, while its distribution counts are all zero and it has no turning points.
\<close>

theorem empty_conversation_outcome:
  "analyzeTopics rnd [] = Inl TypeError
   \<and> (\<exists>r. analyzeSentiment lc [] = Inr r \<and> healthScore r = NaN \<and> turningPoints r = []
            \<and> map entryValue (sentimentDistribution r) = [0, 0, 0])
   \<and> (\<exists>r. analyzeKeyPoints lc [] = Inr r \<and> keyPoints r = [])"
  using analyzeTopics_empty analyzeSentiment_empty analyzeKeyPoints_empty by blast

text \<open>
  C2. The specification says that a key point without a similar counterpart among the other
  turns has a consensus level below \<open>0.3\<close> and is recorded as a controversial topic. In
  the conversation that consists of \<open>loneTurn\<close> alone, this turn qualifies as a key point
  by its length and there is no other turn; the code counts the turn itself as similar,
  computes the consensus level \<open>1/3\<close>, which is not below \<open>0.3\<close>, and records no
  controversial topic.
\<close>

theorem lone_key_point_not_controversial:
  "length (contentOf loneTurn) > 100
   \<and> calculateConsensusLevel asciiLower [loneTurn] (contentOf loneTurn) = Inr (1/3)
   \<and> \<not> (1/3 < (3/10 :: rat))
   \<and> (\<exists>r. analyzeKeyPoints asciiLower [loneTurn] = Inr r \<and> controversialTopics r = [])"
proof -
  have "calculateConsensusLevel asciiLower [loneTurn] (contentOf loneTurn) = Inr (1/3)"
    by (simp add: calculateConsensusLevel_total [OF hasContent_lone] similarTurns_def
          calculateSimilarity_self)
  moreover have "length (contentOf loneTurn) > 100"
    by (simp add: contentOf_def loneTurn_def)
  ultimately show ?thesis
    using analyzeKeyPoints_no_controversy [OF hasContent_lone, of asciiLower] by simp
qed

text \<open>
  C3. Whenever \<open>analyzeKeyPoints\<close> returns, its list of controversial topics is empty.
  For a conversation whose turns all have a content it does return, every turn is among
  the turns similar to its own content, and so the consensus level of every turn's content
  is at least \<open>1/3\<close> and never below \<open>0.3\<close>.
\<close>

theorem consensus_floor:
  "(\<forall>r. analyzeKeyPoints lc dialogue = Inr r \<longrightarrow> controversialTopics r = [])
   \<and> (hasContent dialogue \<longrightarrow>
        (\<exists>r. analyzeKeyPoints lc dialogue = Inr r) \<and>
        (\<forall>t \<in> set dialogue. t \<in> set (similarTurns lc dialogue (contentOf t)) \<and>
           (\<exists>level. calculateConsensusLevel lc dialogue (contentOf t) = Inr level \<and> 1/3 \<le> level
               \<and> \<not> level < 3/10)))"
proof (intro conjI allI impI ballI)
  fix r
  assume r: "analyzeKeyPoints lc dialogue = Inr r"
  have "hasContent dialogue"
  proof (rule ccontr)
    assume "\<not> hasContent dialogue"
    then have "\<exists>t \<in> set dialogue. content t = None" by (simp add: hasContent_def)
    from analyzeKeyPoints_raises [OF this, of lc] r show False by simp
  qed
  from analyzeKeyPoints_no_controversy [OF this, of lc] r show "controversialTopics r = []"
    by auto
next
  assume "hasContent dialogue"
  from analyzeKeyPoints_no_controversy [OF this, of lc]
  show "\<exists>r. analyzeKeyPoints lc dialogue = Inr r" by blast
next
  fix t
  assume h: "hasContent dialogue" and t: "t \<in> set dialogue"
  then obtain c where c: "content t = Some c" by (auto simp: hasContent_def)
  then have cOf: "contentOf t = c" by (simp add: contentOf_def)
  show "t \<in> set (similarTurns lc dialogue (contentOf t))"
    using similarTurns_self [OF t c, of lc] by (simp add: cOf)
  let ?level = "min 1 (of_nat (length (similarTurns lc dialogue c)) / 3) :: rat"
  have ge: "1/3 \<le> ?level"
    by (rule consensus_at_least_third [OF t c])
  have eq: "calculateConsensusLevel lc dialogue (contentOf t) = Inr ?level"
    by (simp only: cOf calculateConsensusLevel_total [OF h])
  show "\<exists>level. calculateConsensusLevel lc dialogue (contentOf t) = Inr level \<and> 1/3 \<le> level
               \<and> \<not> level < 3/10"
  proof (intro exI conjI)
    show "calculateConsensusLevel lc dialogue (contentOf t) = Inr ?level" by (rule eq)
    show "1/3 \<le> ?level" by (rule ge)
    show "\<not> ?level < 3/10" using ge by linarith
  qed
qed

theorem consensus_floor_witness:
  "hasContent [loneTurn, quietTurn] \<and>
   (\<exists>r. analyzeKeyPoints asciiLower [loneTurn, quietTurn] = Inr r \<and> controversialTopics r = []) \<and>
   (\<exists>level. calculateConsensusLevel asciiLower [loneTurn, quietTurn] (contentOf loneTurn) = Inr level
       \<and> 1/3 \<le> level)"
proof -
  have h: "hasContent [loneTurn, quietTurn]"
    by (simp add: hasContent_def loneTurn_def quietTurn_def)
  have "loneTurn \<in> set [loneTurn, quietTurn]" by simp
  with h consensus_floor [of asciiLower "[loneTurn, quietTurn]"] show ?thesis by blast
qed

text \<open>
  C4. The specification gives the health score as \<open>100 * (0.4 * positivityRatio + 0.3 *
  (1 - negativityRatio) + 0.3 * (1 - emotionalVariance))\<close>, clamped to the range from 0 to
  100. The code weighs the three terms with 40, 30 and 30 and then multiplies their sum by
  100 before clamping. For the conversation of one neutral turn the ratios and the variance
  are zero: the formula of the specification gives 60 and the code returns 100.
\<close>

theorem health_score_neutral_turn:
  "(\<exists>r. analyzeSentiment asciiLower [quietTurn] = Inr r \<and> healthScore r = Num 100
        \<and> healthLevel r = levelGood)
   \<and> claimedHealthScore asciiLower [quietTurn] = 60"
proof
  show "\<exists>r. analyzeSentiment asciiLower [quietTurn] = Inr r \<and> healthScore r = Num 100
        \<and> healthLevel r = levelGood"
    using ordinary_examples(1)
    by (simp add: analyzeSentiment_def sentimentVars0_def sentimentStep_def quietTurn_def score_quiet
          Let_def js_div_def js_sub_def js_max_def js_min_def calculateEmotionalVariance_def
          round_half_up_def floor_unique double_0_3_def)
  show "claimedHealthScore asciiLower [quietTurn] = 60"
    by (simp add: claimedHealthScore_def contentOf_def quietTurn_def score_quiet Let_def)
qed

text \<open>
  C5. The specification says that a turn without content is analysed as if its content were
  the empty string. It is not: in a conversation of a complete turn followed by a turn
  whose content is missing, each of the three analyses raises a \<open>TypeError\<close>.
\<close>

theorem missing_content_raises:
  "analyzeTopics (\<lambda>k. 0) [quietTurn, brokenTurn] = Inl TypeError
   \<and> analyzeSentiment asciiLower [quietTurn, brokenTurn] = Inl TypeError
   \<and> analyzeKeyPoints asciiLower [quietTurn, brokenTurn] = Inl TypeError"
  by (simp add: analyzeTopics_raises analyzeSentiment_raises analyzeKeyPoints_raises brokenTurn_def)

text \<open>
  C5, as the code has it. A conversation with a turn whose content is missing makes
  \<open>analyzeTopics\<close>, \<open>analyzeSentiment\<close> and \<open>analyzeKeyPoints\<close> raise a \<open>TypeError\<close>.
  A missing speaker does not abort an analysis: its property key, \<open>undefined\<close>, is not a
  name inherited from \<open>Object.prototype\<close>, and the speaker is not replaced by a placeholder
  but stays \<open>undefined\<close> in the entries of the sentiment trend. When every turn has a
  content, \<open>analyzeKeyPoints\<close> returns a result and \<open>analyzeTopics\<close> returns one for a
  non-empty conversation, whatever the speakers, and \<open>analyzeSentiment\<close> returns a result
  when no speaker's name is a name inherited from \<open>Object.prototype\<close>.
\<close>

theorem missing_fields_outcome:
  "((\<exists>t \<in> set dialogue. content t = None) \<longrightarrow>
      analyzeTopics rnd dialogue = Inl TypeError \<and> analyzeSentiment lc dialogue = Inl TypeError
      \<and> analyzeKeyPoints lc dialogue = Inl TypeError)
   \<and> ((\<forall>t \<in> set dialogue. content t \<noteq> None) \<longrightarrow>
      (\<exists>r. analyzeKeyPoints lc dialogue = Inr r)
      \<and> (dialogue \<noteq> [] \<longrightarrow> (\<exists>r. analyzeTopics rnd dialogue = Inr r))
      \<and> (ordinarySpeakers dialogue \<longrightarrow>
           (\<exists>r. analyzeSentiment lc dialogue = Inr r
                \<and> map trendSpeaker (sentimentTrend r) = take 50 (map speaker dialogue))))
   \<and> propertyKey None \<notin> set objectPrototypeKeys"
proof (intro conjI impI)
  assume a: "\<exists>t \<in> set dialogue. content t = None"
  show "analyzeTopics rnd dialogue = Inl TypeError" by (rule analyzeTopics_raises [OF a])
  from a have "\<exists>t \<in> set dialogue.
      content t = None \<or> propertyKey (speaker t) \<in> set objectPrototypeKeys" by blast
  then show "analyzeSentiment lc dialogue = Inl TypeError" by (rule analyzeSentiment_raises)
  show "analyzeKeyPoints lc dialogue = Inl TypeError" by (rule analyzeKeyPoints_raises [OF a])
next
  assume "\<forall>t \<in> set dialogue. content t \<noteq> None"
  then have h: "hasContent dialogue" by (simp add: hasContent_def)
  from analyzeKeyPoints_no_controversy [OF h, of lc]
  show "\<exists>r. analyzeKeyPoints lc dialogue = Inr r" by blast
next
  assume "\<forall>t \<in> set dialogue. content t \<noteq> None" and ne: "dialogue \<noteq> []"
  then have h: "hasContent dialogue" by (simp add: hasContent_def)
  show "\<exists>r. analyzeTopics rnd dialogue = Inr r" by (rule analyzeTopics_total [OF h ne])
next
  assume "\<forall>t \<in> set dialogue. content t \<noteq> None" and o: "ordinarySpeakers dialogue"
  then have h: "hasContent dialogue" by (simp add: hasContent_def)
  from analyzeSentiment_lists [OF h o, of lc] obtain r where
    r: "analyzeSentiment lc dialogue = Inr r" "sentimentTrend r = take 50 (fullTrend lc dialogue)"
    by blast
  have "map trendSpeaker (fullTrend lc dialogue) = map speaker dialogue"
  proof -
    have "map trendSpeaker (fullTrend lc dialogue)
        = map (\<lambda>i. speaker (dialogue ! i)) [0..<length dialogue]"
      by (simp add: fullTrend_def trendEntryAt_def)
    also have "\<dots> = map speaker (map (\<lambda>i. dialogue ! i) [0..<length dialogue])"
      by simp
    also have "\<dots> = map speaker dialogue"
      by (simp only: map_nth)
    finally show ?thesis .
  qed
  then have "map trendSpeaker (sentimentTrend r) = take 50 (map speaker dialogue)"
    by (simp add: r(2) take_map [symmetric])
  with r(1) show "\<exists>r. analyzeSentiment lc dialogue = Inr r
            \<and> map trendSpeaker (sentimentTrend r) = take 50 (map speaker dialogue)" by blast
next
  show "propertyKey None \<notin> set objectPrototypeKeys"
    by (simp add: propertyKey_def objectPrototypeKeys_def ascii_def)
qed

theorem missing_fields_outcome_witness:
  "(\<exists>t \<in> set [quietTurn, brokenTurn]. content t = None)
   \<and> analyzeSentiment asciiLower [quietTurn, brokenTurn] = Inl TypeError
   \<and> content quietTurn \<noteq> None \<and> content praiseTurn \<noteq> None
   \<and> speaker praiseTurn = None \<and> ordinarySpeakers [quietTurn, praiseTurn]
   \<and> (\<exists>r. analyzeSentiment asciiLower [quietTurn, praiseTurn] = Inr r
          \<and> map trendSpeaker (sentimentTrend r) = [Some (ascii ''A''), None])
   \<and> (\<exists>r. analyzeKeyPoints asciiLower [quietTurn, praiseTurn] = Inr r)
   \<and> (\<exists>r. analyzeTopics (\<lambda>k. 0) [quietTurn, praiseTurn] = Inr r)"
proof -
  have a: "\<exists>t \<in> set [quietTurn, brokenTurn]. content t = None"
    by (simp add: brokenTurn_def)
  have b: "\<forall>t \<in> set [quietTurn, praiseTurn]. content t \<noteq> None"
    by (simp add: quietTurn_def praiseTurn_def)
  have c: "speaker praiseTurn = None" "speaker quietTurn = Some (ascii ''A'')"
    by (simp_all add: praiseTurn_def quietTurn_def)
  have o: "ordinarySpeakers [quietTurn, praiseTurn]"
    by (simp add: ordinarySpeakers_def ordinary_examples)
  from a b c o missing_fields_outcome [of "[quietTurn, brokenTurn]" "\<lambda>k. 0" asciiLower]
    missing_fields_outcome [of "[quietTurn, praiseTurn]" "\<lambda>k. 0" asciiLower]
  show ?thesis by simp
qed

text \<open>
  C6. The specification says that the similarity of two texts with empty token sets, such
  as two empty strings, is 0. The empty string splits into one empty token, and the
  similarity of two empty strings is 1.
\<close>

theorem similarity_empty_texts:
  "calculateSimilarity asciiLower [] [] = Num 1 \<and> calculateSimilarity asciiLower [] [] \<noteq> Num 0"
  by (simp add: calculateSimilarity_self)

text \<open>
  C6, as the code has it. The similarity of two texts is the Jaccard coefficient of their
  sets of lowercase whitespace-delimited tokens, the size of the intersection divided by
  the size of the union, a number between 0 and 1. A token set is never empty, so the
  division is always defined, and the similarity of two empty strings is 1.
\<close>

theorem similarity_jaccard:
  "calculateSimilarity lc a b =
     Num (of_nat (card (tokenSet lc a \<inter> tokenSet lc b)) / of_nat (card (tokenSet lc a \<union> tokenSet lc b)))
   \<and> (0 :: rat) \<le> of_nat (card (tokenSet lc a \<inter> tokenSet lc b)) / of_nat (card (tokenSet lc a \<union> tokenSet lc b))
   \<and> (of_nat (card (tokenSet lc a \<inter> tokenSet lc b)) / of_nat (card (tokenSet lc a \<union> tokenSet lc b)) :: rat) \<le> 1
   \<and> tokenSet lc a \<noteq> {} \<and> tokenSet lc b \<noteq> {}
   \<and> calculateSimilarity lc [] [] = Num 1"
  using jaccard_bounds [of "tokenSet lc a" "tokenSet lc b"]
  by (simp add: calculateSimilarity_tokens [of lc a b] tokenSet_nonempty calculateSimilarity_self)

theorem similarity_jaccard_witness:
  "calculateSimilarity asciiLower (ascii ''A b c'') (ascii ''a B d'') = Num (1/2)"
proof -
  have i: "tokenSet asciiLower (ascii ''A b c'') \<inter> tokenSet asciiLower (ascii ''a B d'')
      = {ascii ''a'', ascii ''b''}"
    unfolding tokens_ab tokens_ad by (auto simp: ascii_def)
  have u: "tokenSet asciiLower (ascii ''A b c'') \<union> tokenSet asciiLower (ascii ''a B d'')
      = {ascii ''a'', ascii ''b'', ascii ''c'', ascii ''d''}"
    unfolding tokens_ab tokens_ad by auto
  have "card {ascii ''a'', ascii ''b''} = 2" "card {ascii ''a'', ascii ''b'', ascii ''c'', ascii ''d''} = 4"
    by (simp_all add: ascii_def)
  with similarity_jaccard [of asciiLower "ascii ''A b c''" "ascii ''a B d''"] show ?thesis
    by (simp add: i u)
qed

text \<open>
  C7. The sentiment score of a text is \<open>0.3 * positiveMatches - 0.3 * negativeMatches\<close>,
  computed in the binary64 arithmetic of the program and clamped to the range from -1 to
  1, where \<open>0.3\<close> is the binary64 value nearest to three tenths and the matches are the
  lowercase whitespace-delimited tokens of the text that are equal to an entry of the
  positive and of the negative bucket of the lexicon; the score lies between -1 and 1, and
  it is the same for every content of the neutral bucket.
\<close>

theorem sentiment_score_formula:
  "analyzeSentimentScore lc s =
     max (- 1) (min 1
       (float_sub (float_mul double_0_3 (of_nat (lexiconMatches positiveIndicators lc s)))
                  (float_mul double_0_3 (of_nat (lexiconMatches negativeIndicators lc s)))))
   \<and> - 1 \<le> analyzeSentimentScore lc s \<and> analyzeSentimentScore lc s \<le> 1
   \<and> analyzeSentimentScoreOn
         [(Positive, positiveIndicators), (Negative, negativeIndicators), (Neutral, otherNeutral)] lc s
       = analyzeSentimentScore lc s
   \<and> double_0_3 = toDouble (3/10)"
proof -
  have formula:
    "analyzeSentimentScore lc s =
       max (- 1) (min 1
         (float_sub (float_mul double_0_3 (of_nat (lexiconMatches positiveIndicators lc s)))
                    (float_mul double_0_3 (of_nat (lexiconMatches negativeIndicators lc s)))))"
    unfolding analyzeSentimentScore_def sentimentIndicators_def by (rule scoreOn)
  have neutral:
    "analyzeSentimentScoreOn
       [(Positive, positiveIndicators), (Negative, negativeIndicators), (Neutral, otherNeutral)] lc s
     = analyzeSentimentScore lc s"
    unfolding formula by (rule scoreOn)
  have "- 1 \<le> analyzeSentimentScore lc s" and "analyzeSentimentScore lc s \<le> 1"
    unfolding formula by simp_all
  with formula neutral double_0_3_nearest show ?thesis by simp
qed

theorem sentiment_score_formula_witness:
  "lexiconMatches positiveIndicators asciiLower mixedText = 4
   \<and> lexiconMatches negativeIndicators asciiLower mixedText = 3
   \<and> analyzeSentimentScore asciiLower mixedText = 1351079888211149 / 4503599627370496
   \<and> (3/10 :: rat) < 1351079888211149 / 4503599627370496"
proof -
  from sentiment_score_formula [of asciiLower mixedText] matches_mixed four_minus_three
  show ?thesis by simp
qed



text \<open>
  C9. \<open>detectTopics\<close> returns the list of exactly the topic categories one of whose trigger
  phrases is a substring of the text, in the order of the table, and the single fallback
  label when no trigger phrase of any category occurs in the text.
\<close>

theorem detectTopics_matched:
  "detectTopics s = (if matchedTopics s = [] then [generalDiscussion] else matchedTopics s)"
proof -
  have "list_ex (\<lambda>pattern. js_includes s pattern) patterns
      \<longleftrightarrow> (\<exists>pattern \<in> set patterns. occursIn pattern s)" for patterns
    by (simp add: list_ex_iff js_includes_occursIn)
  then have "map fst (filter (\<lambda>(topic, patterns). list_ex (\<lambda>pattern. js_includes s pattern) patterns)
                 topicPatterns) = matchedTopics s"
    by (simp add: matchedTopics_def)
  then show ?thesis
    by (simp add: detectTopics_def Let_def)
qed

theorem detectTopics_matched_witness:
  "detectTopics (ascii ''hello'') = [generalDiscussion]
   \<and> detectTopics [0x4E1A, 0x52A1, 0x95EE, 0x9898] = [topicBusiness, topicProblemSolving]"
proof -
  have m1: "matchedTopics (ascii ''hello'') = []"
    by (simp add: matchedTopics_def js_includes_occursIn [symmetric] topicPatterns_def ascii_def
          topicBusinessPatterns_def topicTechnologyPatterns_def topicTeamworkPatterns_def
          topicPlanningPatterns_def topicProblemSolvingPatterns_def)
  have m2: "matchedTopics [0x4E1A, 0x52A1, 0x95EE, 0x9898] = [topicBusiness, topicProblemSolving]"
    by (simp add: matchedTopics_def js_includes_occursIn [symmetric] topicPatterns_def
          topicBusinessPatterns_def topicTechnologyPatterns_def topicTeamworkPatterns_def
          topicPlanningPatterns_def topicProblemSolvingPatterns_def)
  from detectTopics_matched [of "ascii ''hello''"]
    detectTopics_matched [of "[0x4E1A, 0x52A1, 0x95EE, 0x9898]"] m1 m2
  show ?thesis by simp
qed

text \<open>
  C10. The similarity of two texts does not depend on their order, and the similarity of a
  non-empty text with itself is 1.
\<close>

theorem similarity_symmetry:
  "calculateSimilarity lc a b = calculateSimilarity lc b a \<and>
   (a \<noteq> [] \<longrightarrow> calculateSimilarity lc a a = Num 1)"
proof
  show "calculateSimilarity lc a b = calculateSimilarity lc b a"
    by (simp add: calculateSimilarity_tokens Int_commute Un_commute)
  show "a \<noteq> [] \<longrightarrow> calculateSimilarity lc a a = Num 1"
    by (simp add: calculateSimilarity_self)
qed

theorem similarity_symmetry_witness:
  "ascii ''A b c'' \<noteq> [] \<and>
   calculateSimilarity asciiLower (ascii ''A b c'') (ascii ''a B d'')
     = calculateSimilarity asciiLower (ascii ''a B d'') (ascii ''A b c'') \<and>
   calculateSimilarity asciiLower (ascii ''A b c'') (ascii ''A b c'') = Num 1"
proof -
  have "ascii ''A b c'' \<noteq> []" by (simp add: ascii_def)
  with similarity_symmetry [of asciiLower "ascii ''A b c''" "ascii ''a B d''"] show ?thesis by blast
qed

end
